theory Spec2Isabelle
  imports Complex_Main
begin

section \<open>Conventions of the embedding\<close>

text \<open>
  The repository is a browser arena shooter written in JavaScript on top of the THREE
  rendering library.  This theory embeds the simulation core: \<open>WeaponManager\<close>,
  \<open>Player\<close>, \<open>Enemy\<close>, \<open>Bullet\<close>, \<open>PowerUp\<close> and the pooling, cleanup and wave
  logic of \<open>GameEngine3D\<close>.

  \<^item> A JavaScript number is a \<open>real\<close> (the idealisation of a double); where the
    source stores \<open>Infinity\<close> in a field, the field has a type with that value.
  \<^item> An object of a class is a \<open>record\<close> of the fields the methods read or write;
    a method is a function from the record to the updated record, paired with the
    returned value when there is one.
  \<^item> \<open>console.log\<close>, HUD updates, materials, colours and animation mixers (always
    \<open>null\<close> in the source) have no effect on the simulation state and are left out.
\<close>

type_synonym vec3 = "real \<times> real \<times> real"

definition vzero :: vec3 where
  "vzero = (0, 0, 0)"

text \<open>\<open>a || d\<close> on an optional number: \<open>undefined\<close> and \<open>0\<close> are falsy.\<close>

definition js_or :: "real option \<Rightarrow> real \<Rightarrow> real" where
  "js_or a d = (case a of None \<Rightarrow> d | Some v \<Rightarrow> if v = 0 then d else v)"

section \<open>WeaponManager (src/WeaponManager.js)\<close>

text \<open>
  Ammunition is a count of rounds or \<open>Infinity\<close>.  The counts of the source are the
  integer constants of \<open>defaultWeapons\<close>, changed only by \<open>--\<close> and by adding and
  capping such counts, so a finite count is an \<open>int\<close>.
\<close>

datatype ammo = Rounds int | Infinity

fun ammo_add :: "ammo \<Rightarrow> ammo \<Rightarrow> ammo" where
  "ammo_add (Rounds a) (Rounds b) = Rounds (a + b)"
| "ammo_add _ _ = Infinity"

fun ammo_min :: "ammo \<Rightarrow> ammo \<Rightarrow> ammo" where
  "ammo_min (Rounds a) (Rounds b) = Rounds (min a b)"
| "ammo_min (Rounds a) Infinity = Rounds a"
| "ammo_min Infinity b = b"

fun ammo_pos :: "ammo \<Rightarrow> bool" where
  "ammo_pos (Rounds a) = (0 < a)"
| "ammo_pos Infinity = True"

text \<open>\<open>ammoCurrent--\<close> on a finite count.\<close>

fun ammo_dec :: "ammo \<Rightarrow> ammo" where
  "ammo_dec (Rounds a) = Rounds (a - 1)"
| "ammo_dec Infinity = Infinity"

record Weapon =
  name :: string
  damage :: real
  cooldown :: real
  range :: real
  automatic :: bool
  ammoMax :: ammo
  ammoCurrent :: ammo

definition pistol :: Weapon where
  "pistol = \<lparr> name = ''Pistol'', damage = 8, cooldown = 3 / 10, range = 50,
     automatic = False, ammoMax = Infinity, ammoCurrent = Infinity \<rparr>"

definition rifle :: Weapon where
  "rifle = \<lparr> name = ''Rifle'', damage = 15, cooldown = 1 / 10, range = 100,
     automatic = True, ammoMax = Rounds 150, ammoCurrent = Rounds 150 \<rparr>"

definition defaultWeapons :: "(string \<times> Weapon) list" where
  "defaultWeapons = [(''pistol'', pistol), (''rifle'', rifle)]"

text \<open>
  \<open>weapons\<close> is a JavaScript \<open>Map\<close>, which keeps insertion order: an association list
  with distinct keys, new keys appended.  \<open>currentWeapon\<close> is, in the source, a
  reference to the entry of \<open>weapons\<close> under \<open>equippedWeaponId\<close> (both are assigned
  together in \<open>equipWeapon\<close> only, and entries are never replaced or deleted), so it is
  read through the registry and a write through it updates the entry.
\<close>

record WeaponManager =
  weapons :: "(string \<times> Weapon) list"
  equippedWeaponId :: "string option"
  fireTimer :: real

definition currentWeapon :: "WeaponManager \<Rightarrow> Weapon option" where
  "currentWeapon wm =
     (case equippedWeaponId wm of None \<Rightarrow> None | Some i \<Rightarrow> map_of (weapons wm) i)"

definition weapons_has :: "WeaponManager \<Rightarrow> string \<Rightarrow> bool" where
  "weapons_has wm i = (map_of (weapons wm) i \<noteq> None)"

text \<open>Updating the entry under a key in place (the position in the order is kept).\<close>

fun entry_update :: "string \<Rightarrow> (Weapon \<Rightarrow> Weapon) \<Rightarrow> (string \<times> Weapon) list
    \<Rightarrow> (string \<times> Weapon) list" where
  "entry_update i f [] = []"
| "entry_update i f ((k, w) # rest) =
     (if k = i then (k, f w) # rest else (k, w) # entry_update i f rest)"

definition equipWeapon :: "string \<Rightarrow> WeaponManager \<Rightarrow> bool \<times> WeaponManager" where
  "equipWeapon i wm =
     (if \<not> weapons_has wm i \<or> equippedWeaponId wm = Some i then (False, wm)
      else (True, wm\<lparr> equippedWeaponId := Some i, fireTimer := 0 \<rparr>))"

text \<open>\<open>!this.equippedWeaponId\<close>: \<open>null\<close> and the empty string are falsy.\<close>

definition noneEquipped :: "WeaponManager \<Rightarrow> bool" where
  "noneEquipped wm = (equippedWeaponId wm = None \<or> equippedWeaponId wm = Some [])"

text \<open>
  \<open>addWeapon(id, config)\<close>.  A configuration has all the fields of a weapon, so
  \<open>config.ammoCurrent || 0\<close> is \<open>config.ammoCurrent\<close> (a count of \<open>0\<close> stays \<open>0\<close>).
\<close>

definition addWeapon :: "string \<Rightarrow> Weapon \<Rightarrow> WeaponManager \<Rightarrow> WeaponManager" where
  "addWeapon i config wm =
     (if weapons_has wm i then
        wm\<lparr> weapons := entry_update i
              (\<lambda>existing.
                 if ammoCurrent existing \<noteq> Infinity \<and> ammo_pos (ammoMax config)
                 then existing\<lparr> ammoCurrent :=
                        ammo_min (ammoMax existing)
                          (ammo_add (ammoCurrent existing) (ammoCurrent config)) \<rparr>
                 else existing)
              (weapons wm) \<rparr>
      else
        (let wm1 = wm\<lparr> weapons := weapons wm @ [(i, config)] \<rparr>
         in if noneEquipped wm1 then snd (equipWeapon i wm1) else wm1))"

definition loadDefaultWeapons :: "WeaponManager \<Rightarrow> WeaponManager" where
  "loadDefaultWeapons wm =
     (let wm1 = fold (\<lambda>(i, w). addWeapon i w) defaultWeapons wm
      in case weapons wm1 of
           [] \<Rightarrow> wm1
         | (i, _) # _ \<Rightarrow> snd (equipWeapon i wm1))"

definition new_WeaponManager :: WeaponManager where
  "new_WeaponManager =
     loadDefaultWeapons \<lparr> weapons = [], equippedWeaponId = None, fireTimer = 0 \<rparr>"

definition WeaponManager_update :: "real \<Rightarrow> WeaponManager \<Rightarrow> WeaponManager" where
  "WeaponManager_update dt wm =
     (if fireTimer wm > 0 then wm\<lparr> fireTimer := fireTimer wm - dt \<rparr> else wm)"

definition canFire :: "WeaponManager \<Rightarrow> bool" where
  "canFire wm =
     (case currentWeapon wm of
        None \<Rightarrow> False
      | Some w \<Rightarrow>
          if fireTimer wm > 0 then False
          else if ammoCurrent w \<noteq> Infinity \<and> \<not> ammo_pos (ammoCurrent w) then False
          else True)"

text \<open>
  A request to \<open>engine.spawnBullet\<close>.  The spawn position and the direction are read
  from the player's camera target and forward vector (THREE objects); \<open>fire\<close> takes
  them as arguments.
\<close>

record SpawnRequest =
  originPosition :: vec3
  direction :: vec3
  reqDamage :: real
  isPlayerBullet :: bool

definition fire :: "vec3 \<Rightarrow> vec3 \<Rightarrow> WeaponManager
    \<Rightarrow> bool \<times> WeaponManager \<times> SpawnRequest option" where
  "fire spawnPos dir wm =
     (if \<not> canFire wm then (False, wm, None)
      else case (equippedWeaponId wm, currentWeapon wm) of
        (Some i, Some w) \<Rightarrow>
          (True,
           wm\<lparr> fireTimer := cooldown w,
                weapons := entry_update i
                  (\<lambda>cw. if ammoCurrent cw \<noteq> Infinity
                         then cw\<lparr> ammoCurrent := ammo_dec (ammoCurrent cw) \<rparr> else cw)
                  (weapons wm) \<rparr>,
           Some \<lparr> originPosition = spawnPos, direction = dir, reqDamage = damage w,
                  isPlayerBullet = True \<rparr>)
      | _ \<Rightarrow> (False, wm, None))"

text \<open>\<open>weaponIds.indexOf(id)\<close>: the first position of the key, or \<open>-1\<close>.\<close>

fun indexOf :: "string list \<Rightarrow> string option \<Rightarrow> int" where
  "indexOf [] x = -1"
| "indexOf (k # ks) x =
     (if Some k = x then 0 else (let r = indexOf ks x in if r < 0 then -1 else r + 1))"

definition switchToNextWeapon :: "WeaponManager \<Rightarrow> WeaponManager" where
  "switchToNextWeapon wm =
     (if length (weapons wm) \<le> 1 then wm
      else
        (let weaponIds = map fst (weapons wm);
             currentIndex = indexOf weaponIds (equippedWeaponId wm);
             nextIndex = (currentIndex + 1) mod int (length weaponIds)
         in snd (equipWeapon (weaponIds ! nat nextIndex) wm)))"

definition switchToPreviousWeapon :: "WeaponManager \<Rightarrow> WeaponManager" where
  "switchToPreviousWeapon wm =
     (if length (weapons wm) \<le> 1 then wm
      else
        (let weaponIds = map fst (weapons wm);
             currentIndex = indexOf weaponIds (equippedWeaponId wm);
             prevIndex = (currentIndex - 1 + int (length weaponIds)) mod int (length weaponIds)
         in snd (equipWeapon (weaponIds ! nat prevIndex) wm)))"

text \<open>
  A run of the weapon manager without weapon switches: frames (\<open>update(dt)\<close>) and
  trigger pulls (\<open>fire()\<close>), with the result of every \<open>fire()\<close> in order.
\<close>

datatype wm_action = Tick real | Fire

fun wm_run :: "vec3 \<Rightarrow> vec3 \<Rightarrow> wm_action list \<Rightarrow> WeaponManager \<Rightarrow> bool list \<times> WeaponManager"
  where
  "wm_run p d [] wm = ([], wm)"
| "wm_run p d (Tick dt # acts) wm = wm_run p d acts (WeaponManager_update dt wm)"
| "wm_run p d (Fire # acts) wm =
     (let r = fire p d wm; rest = wm_run p d acts (fst (snd r))
      in (fst r # fst rest, snd rest))"

text \<open>The time that passes in a run, and that no frame has a negative duration.\<close>

fun elapsed :: "wm_action list \<Rightarrow> real" where
  "elapsed [] = 0"
| "elapsed (Tick dt # acts) = dt + elapsed acts"
| "elapsed (Fire # acts) = elapsed acts"

fun ticks_nonneg :: "wm_action list \<Rightarrow> bool" where
  "ticks_nonneg [] = True"
| "ticks_nonneg (Tick dt # acts) = (0 \<le> dt \<and> ticks_nonneg acts)"
| "ticks_nonneg (Fire # acts) = ticks_nonneg acts"

fun ammo_nonneg :: "ammo \<Rightarrow> bool" where
  "ammo_nonneg (Rounds n) = (0 \<le> n)"
| "ammo_nonneg Infinity = True"

definition ammo_ok :: "WeaponManager \<Rightarrow> bool" where
  "ammo_ok wm = list_all (\<lambda>(k, w). ammo_nonneg (ammoCurrent w)) (weapons wm)"

text \<open>
  The scenario of a weapon switch during a cooldown: the pistol of a new manager is
  fired, then the next weapon (the rifle) is selected at once.
\<close>

definition wm_after_shot :: WeaponManager where
  "wm_after_shot = fst (snd (fire vzero vzero new_WeaponManager))"

definition wm_after_switch :: WeaponManager where
  "wm_after_switch = switchToNextWeapon wm_after_shot"


section \<open>Numbers that may be infinite\<close>

text \<open>
  The enemy's \<open>shootingInterval\<close>, \<open>shootDistance\<close>, \<open>chaseDistance\<close> and \<open>shootTimer\<close>
  can hold \<open>Infinity\<close> (the constructor and \<open>config.shootingInterval || Infinity\<close>), and
  \<open>Math.random() * Infinity\<close> is \<open>NaN\<close> when the random number is \<open>0\<close>.  These four
  fields are IEEE values over the reals.
\<close>

datatype jsnum = Num real | PosInf | NegInf | NaN

fun js_times :: "jsnum \<Rightarrow> jsnum \<Rightarrow> jsnum" where
  "js_times (Num a) (Num b) = Num (a * b)"
| "js_times NaN _ = NaN"
| "js_times _ NaN = NaN"
| "js_times (Num a) PosInf = (if 0 < a then PosInf else if a < 0 then NegInf else NaN)"
| "js_times (Num a) NegInf = (if 0 < a then NegInf else if a < 0 then PosInf else NaN)"
| "js_times PosInf (Num b) = (if 0 < b then PosInf else if b < 0 then NegInf else NaN)"
| "js_times NegInf (Num b) = (if 0 < b then NegInf else if b < 0 then PosInf else NaN)"
| "js_times PosInf PosInf = PosInf"
| "js_times NegInf NegInf = PosInf"
| "js_times PosInf NegInf = NegInf"
| "js_times NegInf PosInf = NegInf"

text \<open>\<open>x - dt\<close> for a finite \<open>dt\<close>.\<close>

fun js_minus :: "jsnum \<Rightarrow> real \<Rightarrow> jsnum" where
  "js_minus (Num a) d = Num (a - d)"
| "js_minus PosInf d = PosInf"
| "js_minus NegInf d = NegInf"
| "js_minus NaN d = NaN"

text \<open>\<open>x <= y\<close>: every comparison with \<open>NaN\<close> is false.\<close>

fun js_le :: "jsnum \<Rightarrow> jsnum \<Rightarrow> bool" where
  "js_le (Num a) (Num b) = (a \<le> b)"
| "js_le NaN _ = False"
| "js_le _ NaN = False"
| "js_le NegInf _ = True"
| "js_le _ PosInf = True"
| "js_le PosInf _ = False"
| "js_le _ NegInf = False"

text \<open>\<open>Math.min(x, y)\<close>: \<open>NaN\<close> if either argument is.\<close>

fun js_min :: "jsnum \<Rightarrow> jsnum \<Rightarrow> jsnum" where
  "js_min NaN _ = NaN"
| "js_min _ NaN = NaN"
| "js_min a b = (if js_le a b then a else b)"

text \<open>\<open>c || Infinity\<close> and \<open>c || d\<close> on an optional configuration number.\<close>

definition js_or_inf :: "real option \<Rightarrow> jsnum" where
  "js_or_inf c = (case c of None \<Rightarrow> PosInf | Some v \<Rightarrow> if v = 0 then PosInf else Num v)"

section \<open>Vectors (THREE.Vector3)\<close>

fun vadd :: "vec3 \<Rightarrow> vec3 \<Rightarrow> vec3" where
  "vadd (a, b, c) (x, y, z) = (a + x, b + y, c + z)"

fun vscale :: "vec3 \<Rightarrow> real \<Rightarrow> vec3" where
  "vscale (a, b, c) k = (a * k, b * k, c * k)"

fun distanceToSquared :: "vec3 \<Rightarrow> vec3 \<Rightarrow> real" where
  "distanceToSquared (a, b, c) (x, y, z) =
     (a - x) * (a - x) + (b - y) * (b - y) + (c - z) * (c - z)"

fun vlength :: "vec3 \<Rightarrow> real" where
  "vlength (a, b, c) = sqrt (a * a + b * b + c * c)"

text \<open>\<open>normalize()\<close> is \<open>divideScalar(length() || 1)\<close>.\<close>

definition vnormalize :: "vec3 \<Rightarrow> vec3" where
  "vnormalize v = vscale v (1 / (if vlength v = 0 then 1 else vlength v))"

section \<open>Player (src/WeaponManager.js, class Player)\<close>

text \<open>
  The fields of the health and damage logic.  The fields of every entity class carry
  a prefix of the class (\<open>pl_\<close>, \<open>e_\<close>, \<open>b_\<close>, \<open>pu_\<close>), since the classes share field
  names; \<open>_destroyed\<close> is \<open>destroyed\<close>.
\<close>

record Player =
  pl_maxHealth :: real
  pl_health :: real
  pl_isInvincible :: bool
  pl_invincibilityTimer :: real
  pl_invincibilityDuration :: real
  pl_isShielded :: bool
  pl_destroyed :: bool

definition new_Player :: Player where
  "new_Player = \<lparr> pl_maxHealth = 100, pl_health = 100, pl_isInvincible = False,
     pl_invincibilityTimer = 0, pl_invincibilityDuration = 1000, pl_isShielded = False,
     pl_destroyed = False \<rparr>"

definition Player_applyInvincibility :: "real \<Rightarrow> Player \<Rightarrow> Player" where
  "Player_applyInvincibility duration p =
     p\<lparr> pl_isInvincible := True, pl_invincibilityTimer := duration \<rparr>"

text \<open>
  \<open>die()\<close> marks the player destroyed and calls \<open>engine.endGame()\<close>; the flag returned
  with the player says that the engine was notified.
\<close>

definition Player_die :: "Player \<Rightarrow> Player \<times> bool" where
  "Player_die p = (if pl_destroyed p then (p, False) else (p\<lparr> pl_destroyed := True \<rparr>, True))"

text \<open>\<open>takeDamage(amount)\<close>: the returned amount, the player, and whether the game ended.\<close>

definition Player_takeDamage :: "real \<Rightarrow> Player \<Rightarrow> real \<times> Player \<times> bool" where
  "Player_takeDamage amount p =
     (if pl_isInvincible p \<or> pl_isShielded p \<or> pl_destroyed p then (0, p, False)
      else
        (let p1 = p\<lparr> pl_health := max 0 (pl_health p - amount) \<rparr>;
             p2 = Player_applyInvincibility (pl_invincibilityDuration p1) p1
         in if pl_health p2 \<le> 0 then (amount, Player_die p2) else (amount, p2, False)))"

definition Player_heal :: "real \<Rightarrow> Player \<Rightarrow> Player" where
  "Player_heal amount p =
     (if pl_destroyed p then p
      else p\<lparr> pl_health := min (pl_maxHealth p) (pl_health p + amount) \<rparr>)"

definition Player_updateTimers :: "real \<Rightarrow> Player \<Rightarrow> Player" where
  "Player_updateTimers dt p =
     (let deltaMillis = dt * 1000 in
      if pl_isInvincible p then
        (let p1 = p\<lparr> pl_invincibilityTimer := pl_invincibilityTimer p - deltaMillis \<rparr>
         in if pl_invincibilityTimer p1 \<le> 0 then p1\<lparr> pl_isInvincible := False \<rparr> else p1)
      else p)"

text \<open>
  A sequence of calls on the player: damage, healing, and frames in between (which
  end the invincibility that follows a hit).
\<close>

datatype player_call = TakeDamage real | Heal real | Frame real

fun player_step :: "player_call \<Rightarrow> Player \<Rightarrow> Player" where
  "player_step (TakeDamage a) p = fst (snd (Player_takeDamage a p))"
| "player_step (Heal a) p = Player_heal a p"
| "player_step (Frame dt) p = Player_updateTimers dt p"

definition player_run :: "player_call list \<Rightarrow> Player \<Rightarrow> Player" where
  "player_run calls p = fold player_step calls p"

fun amount_nonneg :: "player_call \<Rightarrow> bool" where
  "amount_nonneg (TakeDamage a) = (0 \<le> a)"
| "amount_nonneg (Heal a) = (0 \<le> a)"
| "amount_nonneg (Frame dt) = True"

definition health_in_range :: "Player \<Rightarrow> bool" where
  "health_in_range p = (0 \<le> pl_health p \<and> pl_health p \<le> pl_maxHealth p)"

section \<open>Enemy (src/Enemy.js)\<close>

datatype EnemyState = IDLE | CHASING | ATTACKING | FLEEING | DYING | INACTIVE

text \<open>An entry of \<open>GameEngine3D.enemyTypes\<close>; the optional fields may be absent.\<close>

record EnemyConfig =
  cfg_health :: real
  cfg_score :: real
  cfg_collisionDamage :: real
  cfg_speed :: real
  cfg_size :: "real option"
  cfg_dropChance :: "real option"
  cfg_canShoot :: "bool option"
  cfg_shootingInterval :: "real option"
  cfg_chaseDistance :: "real option"
  cfg_shootDistance :: "real option"
  cfg_attack :: "real option"

definition basicConfig :: EnemyConfig where
  "basicConfig = \<lparr> cfg_health = 15, cfg_score = 1, cfg_collisionDamage = 30,
     cfg_speed = 2, cfg_size = Some 1, cfg_dropChance = Some (5 / 100),
     cfg_canShoot = None, cfg_shootingInterval = None, cfg_chaseDistance = None,
     cfg_shootDistance = None, cfg_attack = None \<rparr>"

definition tankConfig :: EnemyConfig where
  "tankConfig = \<lparr> cfg_health = 25, cfg_score = 2, cfg_collisionDamage = 38,
     cfg_speed = 3 / 2, cfg_size = Some (3 / 2), cfg_dropChance = Some (10 / 100),
     cfg_canShoot = None, cfg_shootingInterval = None, cfg_chaseDistance = None,
     cfg_shootDistance = None, cfg_attack = None \<rparr>"

definition fastConfig :: EnemyConfig where
  "fastConfig = \<lparr> cfg_health = 10, cfg_score = 3 / 2, cfg_collisionDamage = 18,
     cfg_speed = 3, cfg_size = Some (8 / 10), cfg_dropChance = Some (8 / 100),
     cfg_canShoot = None, cfg_shootingInterval = None, cfg_chaseDistance = None,
     cfg_shootDistance = None, cfg_attack = None \<rparr>"

definition shooterConfig :: EnemyConfig where
  "shooterConfig = \<lparr> cfg_health = 20, cfg_score = 3, cfg_collisionDamage = 15,
     cfg_speed = 18 / 10, cfg_size = Some 1, cfg_dropChance = Some (15 / 100),
     cfg_canShoot = Some True, cfg_shootingInterval = Some 2000,
     cfg_chaseDistance = Some 20, cfg_shootDistance = Some 15, cfg_attack = None \<rparr>"

definition enemyTypes :: "(string \<times> EnemyConfig) list" where
  "enemyTypes = [(''basic'', basicConfig), (''tank'', tankConfig), (''fast'', fastConfig),
     (''shooter'', shooterConfig)]"

text \<open>
  \<open>e_position\<close> is \<open>mesh.position\<close>.  The orientation of the mesh is kept only as far
  as the enemy reads it back, in \<open>forwardDirection\<close>.
\<close>

record Enemy =
  e_type :: "string option"
  e_config :: "EnemyConfig option"
  e_health :: real
  e_speed :: real
  e_score :: real
  e_collisionDamage :: real
  e_dropChance :: real
  e_canShoot :: bool
  e_shootingInterval :: jsnum
  e_shootDistance :: jsnum
  e_chaseDistance :: jsnum
  e_currentState :: EnemyState
  e_stateTimer :: real
  e_destroyed :: bool
  e_isInvincible :: bool
  e_invincibilityTimer :: real
  e_invincibilityDuration :: real
  e_position :: vec3
  e_velocity :: vec3
  e_targetPosition :: vec3
  e_forwardDirection :: vec3
  e_shootTimer :: jsnum

definition new_Enemy :: Enemy where
  "new_Enemy = \<lparr> e_type = None, e_config = None, e_health = 0, e_speed = 0, e_score = 0,
     e_collisionDamage = 0, e_dropChance = 0, e_canShoot = False,
     e_shootingInterval = PosInf, e_shootDistance = PosInf, e_chaseDistance = PosInf,
     e_currentState = INACTIVE, e_stateTimer = 0, e_destroyed = True,
     e_isInvincible = False, e_invincibilityTimer = 0, e_invincibilityDuration = 300,
     e_position = vzero, e_velocity = vzero, e_targetPosition = vzero,
     e_forwardDirection = (0, 0, -1), e_shootTimer = Num 0 \<rparr>"

text \<open>
  \<open>setState(newState)\<close>.  \<open>rnd\<close> is the value of \<open>Math.random()\<close>, read on entering
  \<open>IDLE\<close>.
\<close>

definition setState :: "EnemyState \<Rightarrow> real \<Rightarrow> Enemy \<Rightarrow> Enemy" where
  "setState newState rnd e =
     (if newState = e_currentState e then e
      else
        (let e1 = e\<lparr> e_currentState := newState, e_stateTimer := 0 \<rparr> in
         case newState of
           IDLE \<Rightarrow> e1\<lparr> e_velocity := vzero, e_stateTimer := 1 + rnd * 2 \<rparr>
         | CHASING \<Rightarrow> e1
         | ATTACKING \<Rightarrow>
             (let e2 = e1\<lparr> e_velocity := vzero \<rparr> in
              if e_canShoot e2
              then e2\<lparr> e_shootTimer := js_min (e_shootTimer e2) (Num (1 / 2)) \<rparr> else e2)
         | FLEEING \<Rightarrow> e1
         | DYING \<Rightarrow> e1\<lparr> e_velocity := vzero, e_stateTimer := 3 / 2 \<rparr>
         | INACTIVE \<Rightarrow> e1\<lparr> e_velocity := vzero \<rparr>))"

definition Enemy_destroy :: "Enemy \<Rightarrow> Enemy" where
  "Enemy_destroy e =
     (if e_destroyed e then e else setState INACTIVE 0 (e\<lparr> e_destroyed := True \<rparr>))"

text \<open>
  \<open>reset(type, config, position)\<close>.  \<open>rShoot\<close> and \<open>rIdle\<close> are the values of
  \<open>Math.random()\<close> for the shoot timer and the idle duration; \<open>facing\<close> is what
  \<open>mesh.getWorldDirection\<close> returns after the random rotation.
\<close>

definition Enemy_reset :: "string \<Rightarrow> EnemyConfig \<Rightarrow> vec3 \<Rightarrow> real \<Rightarrow> real \<Rightarrow> vec3
    \<Rightarrow> Enemy \<Rightarrow> Enemy" where
  "Enemy_reset type config position rShoot rIdle facing e =
     (let e1 = e\<lparr> e_type := Some type, e_config := Some config,
                  e_health := cfg_health config, e_speed := cfg_speed config,
                  e_score := cfg_score config,
                  e_collisionDamage := cfg_collisionDamage config,
                  e_dropChance := js_or (cfg_dropChance config) (5 / 100),
                  e_canShoot := (case cfg_canShoot config of None \<Rightarrow> False | Some b \<Rightarrow> b),
                  e_shootingInterval := js_or_inf (cfg_shootingInterval config),
                  e_shootDistance := Num (js_or (cfg_shootDistance config) 5),
                  e_chaseDistance := Num (js_or (cfg_chaseDistance config) 25) \<rparr>;
          e2 = e1\<lparr> e_isInvincible := False, e_invincibilityTimer := 0,
                   e_shootTimer := js_times (Num rShoot) (e_shootingInterval e1),
                   e_destroyed := False \<rparr>;
          e3 = e2\<lparr> e_position := position, e_forwardDirection := facing \<rparr>
      in setState IDLE rIdle e3)"

definition Enemy_applyInvincibility :: "real \<Rightarrow> Enemy \<Rightarrow> Enemy" where
  "Enemy_applyInvincibility duration e =
     e\<lparr> e_isInvincible := True, e_invincibilityTimer := duration \<rparr>"

text \<open>\<open>takeDamage(amount)\<close>: the returned number and the enemy.\<close>

definition Enemy_takeDamage :: "real \<Rightarrow> Enemy \<Rightarrow> real \<times> Enemy" where
  "Enemy_takeDamage amount e =
     (if e_isInvincible e \<or> e_destroyed e \<or> e_currentState e = DYING
         \<or> e_currentState e = INACTIVE
      then (0, e)
      else
        (let e1 = e\<lparr> e_health := max 0 (e_health e - amount) \<rparr>;
             e2 = Enemy_applyInvincibility (e_invincibilityDuration e1) e1
         in if e_health e2 \<le> 0 then (amount, setState DYING 0 e2) else (amount, e2)))"

definition Enemy_updateTimers :: "real \<Rightarrow> Enemy \<Rightarrow> Enemy" where
  "Enemy_updateTimers dt e =
     (let deltaMillis = dt * 1000 in
      if e_isInvincible e then
        (let e1 = e\<lparr> e_invincibilityTimer := e_invincibilityTimer e - deltaMillis \<rparr>
         in if e_invincibilityTimer e1 \<le> 0 then e1\<lparr> e_isInvincible := False \<rparr> else e1)
      else e)"

text \<open>
  What one call of \<open>updateFSM\<close> reads from outside the enemy: the engine's player
  (\<open>None\<close> for \<open>null\<close>) with its \<open>_destroyed\<close> flag and mesh position; the value of
  \<open>Math.random()\<close>; and the results of THREE's geometry: the world direction of the
  mesh after the slerp towards the player, and the muzzle position and aim direction
  that \<open>shoot()\<close> computes.
\<close>

record PlayerView =
  pv_destroyed :: bool
  pv_position :: vec3

record FsmEnv =
  env_player :: "PlayerView option"
  env_random :: real
  env_facing :: vec3
  env_muzzle :: vec3
  env_aim :: vec3

definition noPlayer :: "FsmEnv \<Rightarrow> bool" where
  "noPlayer env = (case env_player env of None \<Rightarrow> True | Some p \<Rightarrow> pv_destroyed p)"

text \<open>\<open>shoot()\<close>: the request passed to \<open>engine.spawnBullet\<close>, if any.\<close>

definition shoot :: "FsmEnv \<Rightarrow> Enemy \<Rightarrow> SpawnRequest option" where
  "shoot env e =
     (if e_destroyed e \<or> noPlayer env then None
      else Some \<lparr> originPosition = env_muzzle env, direction = env_aim env,
                  reqDamage = js_or (case e_config e of None \<Rightarrow> None | Some c \<Rightarrow> cfg_attack c) 5,
                  isPlayerBullet = False \<rparr>)"

text \<open>The \<open>switch\<close> on the current state in \<open>updateFSM\<close> (state logic execution).\<close>

definition stateLogic :: "FsmEnv \<Rightarrow> real \<Rightarrow> vec3 \<Rightarrow> Enemy \<Rightarrow> Enemy \<times> SpawnRequest option"
  where
  "stateLogic env dt playerPos e =
     (case e_currentState e of
        IDLE \<Rightarrow>
          (if e_stateTimer e \<le> 0 then (e\<lparr> e_stateTimer := 1 + env_random env * 2 \<rparr>, None)
           else (e, None))
      | CHASING \<Rightarrow>
          (let e1 = e\<lparr> e_targetPosition := playerPos \<rparr>;
               e2 = e1\<lparr> e_forwardDirection := env_facing env \<rparr>;
               moveVector = vscale (e_forwardDirection e2) (e_speed e2 * dt);
               e3 = e2\<lparr> e_forwardDirection := moveVector \<rparr>
           in (e3\<lparr> e_position := vadd (e_position e3) moveVector \<rparr>, None))
      | ATTACKING \<Rightarrow>
          (let e1 = e\<lparr> e_targetPosition := playerPos \<rparr> in
           if e_canShoot e1 then
             (let e2 = e1\<lparr> e_shootTimer := js_minus (e_shootTimer e1) dt \<rparr> in
              if js_le (e_shootTimer e2) (Num 0)
              then (e2\<lparr> e_shootTimer := e_shootingInterval e2 \<rparr>, shoot env e2)
              else (e2, None))
           else (e1, None))
      | FLEEING \<Rightarrow> (e, None)
      | DYING \<Rightarrow> (if e_stateTimer e \<le> 0 then (Enemy_destroy e, None) else (e, None))
      | INACTIVE \<Rightarrow> (e, None))"

text \<open>The state transition checks at the end of \<open>updateFSM\<close>.\<close>

definition transitionChecks :: "FsmEnv \<Rightarrow> real \<Rightarrow> Enemy \<Rightarrow> Enemy" where
  "transitionChecks env distanceToPlayerSq e =
     (if e_currentState e \<noteq> DYING \<and> e_currentState e \<noteq> INACTIVE then
        (let canAttack = js_le (Num distanceToPlayerSq)
                           (js_times (e_shootDistance e) (e_shootDistance e));
             canChase = js_le (Num distanceToPlayerSq)
                           (js_times (e_chaseDistance e) (e_chaseDistance e))
         in case e_currentState e of
              IDLE \<Rightarrow> if canChase then setState CHASING (env_random env) e else e
            | CHASING \<Rightarrow>
                if canAttack then setState ATTACKING (env_random env) e
                else if \<not> canChase then setState IDLE (env_random env) e
                else e
            | ATTACKING \<Rightarrow> if \<not> canAttack then setState CHASING (env_random env) e else e
            | _ \<Rightarrow> e)
      else e)"

text \<open>
  \<open>updateFSM(dt)\<close>.  \<open>noPlayer\<close> is the test
  \<open>!this.engine.player || this.engine.player._destroyed\<close>; when it holds the first
  block always returns, since after its first \<open>if\<close> the state is \<open>IDLE\<close>, \<open>DYING\<close> or
  \<open>INACTIVE\<close>.  The distance to the player is measured before the state logic
  moves the enemy.  One call reads \<open>Math.random()\<close> at most once.
\<close>

definition updateFSM :: "FsmEnv \<Rightarrow> real \<Rightarrow> Enemy \<Rightarrow> Enemy \<times> SpawnRequest option" where
  "updateFSM env dt e =
     (case (if noPlayer env then None else env_player env) of
        None \<Rightarrow>
          (let e1 = (if e_currentState e \<noteq> IDLE \<and> e_currentState e \<noteq> DYING
                        \<and> e_currentState e \<noteq> INACTIVE
                     then setState IDLE (env_random env) e else e);
               e2 = e1\<lparr> e_stateTimer := e_stateTimer e1 - dt \<rparr>
           in if e_currentState e2 = DYING \<and> e_stateTimer e2 \<le> 0
              then (Enemy_destroy e2, None) else (e2, None))
      | Some player \<Rightarrow>
          (let e1 = e\<lparr> e_stateTimer := e_stateTimer e - dt \<rparr>;
               distanceToPlayerSq = distanceToSquared (e_position e1) (pv_position player);
               (e2, shot) = stateLogic env dt (pv_position player) e1
           in (transitionChecks env distanceToPlayerSq e2, shot)))"

definition Enemy_update :: "FsmEnv \<Rightarrow> real \<Rightarrow> Enemy \<Rightarrow> Enemy \<times> SpawnRequest option" where
  "Enemy_update env dt e =
     (if e_destroyed e \<or> e_currentState e = INACTIVE then (e, None)
      else updateFSM env dt (Enemy_updateTimers dt e))"

text \<open>
  Frames between two hits: the enemy after a list of \<open>update(dt)\<close> calls, each with
  what it reads from outside.
\<close>

fun enemy_frames :: "(FsmEnv \<times> real) list \<Rightarrow> Enemy \<Rightarrow> Enemy" where
  "enemy_frames [] e = e"
| "enemy_frames ((env, dt) # fs) e = enemy_frames fs (fst (Enemy_update env dt e))"

text \<open>The time the frames take, and that no frame has a negative duration.\<close>

fun frames_time :: "(FsmEnv \<times> real) list \<Rightarrow> real" where
  "frames_time [] = 0"
| "frames_time ((env, dt) # fs) = dt + frames_time fs"

fun frames_nonneg :: "(FsmEnv \<times> real) list \<Rightarrow> bool" where
  "frames_nonneg [] = True"
| "frames_nonneg ((env, dt) # fs) = (0 \<le> dt \<and> frames_nonneg fs)"

text \<open>The guard of \<open>takeDamage\<close>.\<close>

definition damage_blocked :: "Enemy \<Rightarrow> bool" where
  "damage_blocked e = (e_isInvincible e \<or> e_destroyed e \<or> e_currentState e = DYING
     \<or> e_currentState e = INACTIVE)"

text \<open>
  An enemy that takes part in the game: not destroyed and in none of the two states in
  which \<open>update\<close> and \<open>takeDamage\<close> leave it alone.
\<close>

definition fighting :: "Enemy \<Rightarrow> bool" where
  "fighting e = (\<not> e_destroyed e \<and> e_currentState e \<noteq> DYING \<and> e_currentState e \<noteq> INACTIVE)"

text \<open>
  A scenario: a basic enemy spawned five units from a live player standing at the
  origin, and a frame of a tenth of a second.
\<close>

definition basic_enemy :: Enemy where
  "basic_enemy = Enemy_reset ''basic'' basicConfig (5, 0, 0) (1 / 2) (1 / 2) (0, 0, -1) new_Enemy"

definition env0 :: FsmEnv where
  "env0 = \<lparr> env_player = Some \<lparr> pv_destroyed = False, pv_position = vzero \<rparr>,
     env_random = 1 / 2, env_facing = (-1, 0, 0), env_muzzle = (5, 1 / 2, 0),
     env_aim = (-1, 0, 0) \<rparr>"

section \<open>Bullet (src/Bullets.js)\<close>

record Bullet =
  b_speed :: real
  b_damage :: real
  b_isPlayerBullet :: bool
  b_maxLifespan :: real
  b_lifespanTimer :: real
  b_destroyed :: bool
  b_visible :: bool
  b_position :: vec3
  b_direction :: vec3
  b_sphereCenter :: vec3

definition new_Bullet :: Bullet where
  "new_Bullet = \<lparr> b_speed = 15, b_damage = 5, b_isPlayerBullet = True, b_maxLifespan = 3,
     b_lifespanTimer = 0, b_destroyed = True, b_visible = False, b_position = vzero,
     b_direction = (0, 0, -1), b_sphereCenter = vzero \<rparr>"

definition Bullet_destroy :: "Bullet \<Rightarrow> Bullet" where
  "Bullet_destroy b =
     (if b_destroyed b then b else b\<lparr> b_destroyed := True, b_visible := False \<rparr>)"

definition updateBoundingVolume :: "Bullet \<Rightarrow> Bullet" where
  "updateBoundingVolume b = b\<lparr> b_sphereCenter := b_position b \<rparr>"

text \<open>\<open>reset\<close>: a \<open>null\<close> position or direction is \<open>None\<close>.\<close>

definition Bullet_reset :: "vec3 option \<Rightarrow> vec3 option \<Rightarrow> real \<Rightarrow> bool \<Rightarrow> Bullet \<Rightarrow> Bullet"
  where
  "Bullet_reset originPos dir dmg isPlayer b =
     (case (originPos, dir) of
        (Some origin, Some d) \<Rightarrow>
          updateBoundingVolume
            (b\<lparr> b_damage := dmg, b_isPlayerBullet := isPlayer,
                 b_speed := (if isPlayer then 25 else 18),
                 b_lifespanTimer := 0, b_destroyed := False,
                 b_position := origin, b_direction := vnormalize d, b_visible := True \<rparr>)
      | _ \<Rightarrow> Bullet_destroy b)"

definition Bullet_update :: "real \<Rightarrow> Bullet \<Rightarrow> Bullet" where
  "Bullet_update dt b =
     (if b_destroyed b then b
      else
        (let moveDistance = b_speed b * dt;
             b1 = b\<lparr> b_position := vadd (b_position b) (vscale (b_direction b) moveDistance) \<rparr>;
             b2 = b1\<lparr> b_lifespanTimer := b_lifespanTimer b1 + dt \<rparr>
         in if b_lifespanTimer b2 \<ge> b_maxLifespan b2 then Bullet_destroy b2
            else updateBoundingVolume b2))"

section \<open>Exceptions\<close>

text \<open>
  \<open>TypeError\<close> is JavaScript's exception for reading a property of \<open>undefined\<close> or
  \<open>null\<close>.  A function that can raise returns \<open>Inl TypeError\<close>, and the call ends there.
\<close>

datatype error = TypeError

section \<open>PowerUp (src/InputState.js, class PowerUp)\<close>

text \<open>
  An entry of \<open>GameEngine3D.powerUpTypes\<close>: the duration (the \<open>effect\<close> closures of the
  table are not called by \<open>PowerUp\<close>).  The physics body is the CANNON body created on
  the first \<open>reset\<close>: its position and velocity.
\<close>

record PowerUpConfig =
  pcfg_duration :: real

definition powerUpTypes :: "(string \<times> PowerUpConfig) list" where
  "powerUpTypes = [(''heal'', \<lparr> pcfg_duration = 0 \<rparr>), (''speed'', \<lparr> pcfg_duration = 5000 \<rparr>),
     (''shield'', \<lparr> pcfg_duration = 7000 \<rparr>)]"

record Body =
  body_position :: vec3
  body_velocity :: vec3

text \<open>
  The constructor stores \<open>engine.physics\<close> in \<open>this.physics\<close>.  The class
  \<open>GameEngine3D\<close> never assigns its \<open>physics\<close>, so the stored value is \<open>undefined\<close>
  unless the program that builds the engine has set the property to a \<open>Physics\<close>
  object (src/WeaponManager.js) before it constructs the power-up.  \<open>pu_physics\<close> says
  that \<open>this.physics\<close> is such an object; no method writes it.
\<close>

record PowerUp =
  pu_physics :: bool
  pu_type :: string
  pu_config :: "PowerUpConfig option"
  pu_destroyed :: bool
  pu_bobTimer :: real
  pu_visible :: bool
  pu_position :: vec3
  pu_rotationY :: real
  pu_physicsBody :: "Body option"

text \<open>
  A power-up as its constructor leaves it; \<open>physics\<close> says that \<open>engine.physics\<close> is a
  \<open>Physics\<close> object, and \<open>rBob\<close> is the value of \<open>Math.random()\<close>.
\<close>

definition new_PowerUp :: "bool \<Rightarrow> real \<Rightarrow> PowerUp" where
  "new_PowerUp physics rBob = \<lparr> pu_physics = physics, pu_type = ''default'',
     pu_config = None, pu_destroyed = True,
     pu_bobTimer = rBob * pi * 2, pu_visible = False, pu_position = vzero,
     pu_rotationY = 0, pu_physicsBody = None \<rparr>"

text \<open>
  \<open>reset(position, type)\<close>; \<open>rRot\<close> and \<open>rBob\<close> are the two values of \<open>Math.random()\<close>.
  Without a physics body, \<open>reset\<close> creates one with \<open>this.physics.createSphereShape\<close>
  and \<open>this.physics.createMaterial\<close>, which raises when \<open>this.physics\<close> is
  \<open>undefined\<close>; the two methods of \<open>Physics\<close> themselves do not fail.  A new CANNON
  body is at the origin and at rest.
\<close>

definition PowerUp_reset :: "vec3 \<Rightarrow> string \<Rightarrow> real \<Rightarrow> real \<Rightarrow> PowerUp
    \<Rightarrow> error + PowerUp" where
  "PowerUp_reset position type rRot rBob p =
     (let p1 = (case map_of powerUpTypes type of
                  Some c \<Rightarrow> p\<lparr> pu_type := type, pu_config := Some c \<rparr>
                | None \<Rightarrow> p\<lparr> pu_type := ''default'',
                             pu_config := Some \<lparr> pcfg_duration = 0 \<rparr> \<rparr>);
          p2 = p1\<lparr> pu_destroyed := False, pu_visible := True, pu_position := position,
                   pu_rotationY := rRot * pi * 2, pu_bobTimer := rBob * pi * 2 \<rparr>
      in case pu_physicsBody p2 of
           None \<Rightarrow>
             if pu_physics p2 then
               (let body = \<lparr> body_position = vzero, body_velocity = vzero \<rparr>
                in Inr (p2\<lparr> pu_physicsBody :=
                             Some (body\<lparr> body_position := position,
                                         body_velocity := vzero \<rparr>) \<rparr>))
             else Inl TypeError
         | Some body \<Rightarrow>
             Inr (p2\<lparr> pu_physicsBody :=
                        Some (body\<lparr> body_position := position, body_velocity := vzero \<rparr>) \<rparr>))"

definition PowerUp_destroy :: "PowerUp \<Rightarrow> PowerUp" where
  "PowerUp_destroy p =
     (if pu_destroyed p then p else p\<lparr> pu_destroyed := True, pu_visible := False \<rparr>)"


section \<open>GameEngine3D (src/UIManager.js, class GameEngine3D)\<close>

datatype GameState = TITLE | LOADING | PLAYING | PAUSED | GAME_OVER | WAVE_TRANSITION

text \<open>
  The engine's lists and pools hold references to objects, and the same object is
  written through any of them, so objects live in a store: \<open>heap\<close> maps a reference to
  the object.  An object is a bullet, an enemy, a power-up or an effect.  The class of
  the effects in \<open>activeEffects\<close> is not part of the repository; the engine reads their
  \<open>_destroyed\<close> flag and whether they have a \<open>mesh\<close>.  The objects of the three entity
  classes always have a mesh (their constructors create it).

  \<open>scene\<close> is the set of the objects whose mesh is in the THREE scene.  \<open>pools\<close> is the
  object \<open>this.pools\<close>, a dictionary from pool names to arrays (properties inherited
  from \<open>Object.prototype\<close> are not modelled); an array grows and shrinks at its end.

  \<open>Math.random()\<close> is the sequence \<open>randoms\<close>, read at position \<open>randomsUsed\<close>.
\<close>

type_synonym ref = nat

record Effect =
  fx_destroyed :: bool
  fx_hasMesh :: bool

datatype entity = EBullet Bullet | EEnemy Enemy | EPowerUp PowerUp | EEffect Effect

fun is_destroyed :: "entity \<Rightarrow> bool" where
  "is_destroyed (EBullet b) = b_destroyed b"
| "is_destroyed (EEnemy e) = e_destroyed e"
| "is_destroyed (EPowerUp p) = pu_destroyed p"
| "is_destroyed (EEffect f) = fx_destroyed f"

fun set_destroyed :: "bool \<Rightarrow> entity \<Rightarrow> entity" where
  "set_destroyed v (EBullet b) = EBullet (b\<lparr> b_destroyed := v \<rparr>)"
| "set_destroyed v (EEnemy e) = EEnemy (e\<lparr> e_destroyed := v \<rparr>)"
| "set_destroyed v (EPowerUp p) = EPowerUp (p\<lparr> pu_destroyed := v \<rparr>)"
| "set_destroyed v (EEffect f) = EEffect (f\<lparr> fx_destroyed := v \<rparr>)"

fun has_mesh :: "entity \<Rightarrow> bool" where
  "has_mesh (EEffect f) = fx_hasMesh f"
| "has_mesh _ = True"

text \<open>
  The model also stops with \<open>TypeError\<close> where the engine calls a method or reads a
  field of one entity class on an object of another class, which the source never
  sets up.
\<close>

record Engine =
  gameState :: GameState
  score :: real
  currentWave :: int
  enemiesToSpawn :: int
  enemiesRemainingInWave :: int
  enemiesActive :: int
  waveCooldownTimer :: real
  waveCooldownDuration :: real
  activeEnemies :: "ref list"
  activeBullets :: "ref list"
  activePowerUps :: "ref list"
  activeEffects :: "ref list"
  pools :: "string \<rightharpoonup> ref list"
  scene :: "ref set"
  heap :: "ref \<Rightarrow> entity"
  randoms :: "nat \<Rightarrow> real"
  randomsUsed :: nat

text \<open>
  The engine as its constructor leaves it, for a given store and random sequence:
  title screen, no wave, empty lists and three empty pools.
\<close>

definition new_GameEngine3D :: "(ref \<Rightarrow> entity) \<Rightarrow> (nat \<Rightarrow> real) \<Rightarrow> Engine" where
  "new_GameEngine3D h rs = \<lparr> gameState = TITLE, score = 0, currentWave = 0,
     enemiesToSpawn = 0, enemiesRemainingInWave = 0, enemiesActive = 0,
     waveCooldownTimer = 0, waveCooldownDuration = 3000,
     activeEnemies = [], activeBullets = [], activePowerUps = [], activeEffects = [],
     pools = [''enemies'' \<mapsto> [], ''bullets'' \<mapsto> [], ''powerUps'' \<mapsto> []],
     scene = {}, heap = h, randoms = rs, randomsUsed = 0 \<rparr>"

definition nextRandom :: "Engine \<Rightarrow> real \<times> Engine" where
  "nextRandom s = (randoms s (randomsUsed s), s\<lparr> randomsUsed := Suc (randomsUsed s) \<rparr>)"

subsection \<open>Object pooling\<close>

text \<open>
  \<open>getObjectFromPool(poolName)\<close>.  \<open>pool.length\<close> on a missing pool raises.  The
  \<open>switch\<close> that would construct an object has only its \<open>default\<close> branch, which
  returns \<open>null\<close>.
\<close>

definition getObjectFromPool :: "string \<Rightarrow> Engine \<Rightarrow> error + (ref option \<times> Engine)" where
  "getObjectFromPool poolName s =
     (case pools s poolName of
        None \<Rightarrow> Inl TypeError
      | Some pool \<Rightarrow>
          if length pool > 0 then
            (let obj = last pool;
                 s1 = s\<lparr> pools := (pools s)(poolName \<mapsto> butlast pool) \<rparr>;
                 s2 = s1\<lparr> heap := (heap s1)(obj := set_destroyed False (heap s1 obj)) \<rparr>;
                 s3 = (if has_mesh (heap s2 obj) then s2\<lparr> scene := insert obj (scene s2) \<rparr>
                       else s2)
             in Inr (Some obj, s3))
          else Inr (None, s))"

definition returnObjectToPool :: "ref option \<Rightarrow> string \<Rightarrow> Engine \<Rightarrow> Engine" where
  "returnObjectToPool object poolName s =
     (case object of
        None \<Rightarrow> s
      | Some obj \<Rightarrow>
          (let s1 = s\<lparr> heap := (heap s)(obj := set_destroyed True (heap s obj)) \<rparr>;
               s2 = (if has_mesh (heap s1 obj) then s1\<lparr> scene := scene s1 - {obj} \<rparr>
                     else s1)
           in case pools s2 poolName of
                Some pool \<Rightarrow> s2\<lparr> pools := (pools s2)(poolName \<mapsto> pool @ [obj]) \<rparr>
              | None \<Rightarrow> s2))"

text \<open>
  Releasing a list of objects in order, and acquiring \<open>n\<close> times; the second gives the
  acquired objects in the order of the calls, or the first exception.
\<close>

definition releaseAll :: "ref list \<Rightarrow> string \<Rightarrow> Engine \<Rightarrow> Engine" where
  "releaseAll objs poolName s = fold (\<lambda>obj. returnObjectToPool (Some obj) poolName) objs s"

fun acquireN :: "nat \<Rightarrow> string \<Rightarrow> Engine \<Rightarrow> error + (ref option list \<times> Engine)" where
  "acquireN 0 poolName s = Inr ([], s)"
| "acquireN (Suc n) poolName s =
     (case getObjectFromPool poolName s of
        Inl err \<Rightarrow> Inl err
      | Inr (obj, s1) \<Rightarrow>
          (case acquireN n poolName s1 of
             Inl err \<Rightarrow> Inl err
           | Inr (objs, s2) \<Rightarrow> Inr (obj # objs, s2)))"

subsection \<open>Spawning\<close>

definition getRandomSpawnPosition :: "Engine \<Rightarrow> vec3 \<times> Engine" where
  "getRandomSpawnPosition s =
     (let (r1, s1) = nextRandom s;
          radius = 30 + r1 * 10;
          (r2, s2) = nextRandom s1;
          angle = r2 * pi * 2
      in ((cos angle * radius, 1 / 2, sin angle * radius), s2))"

text \<open>
  The loop of \<open>getRandomEnemyTypeByWaveNumber\<close> over the keys of \<open>chances\<close>, which are
  in the order \<open>basic\<close>, \<open>tank\<close>, \<open>fast\<close>, \<open>shooter\<close>.  In the function itself,
  \<open>scale\<close> is finite whenever \<open>totalChance\<close> is positive, so the test
  \<open>totalChance <= 0 || !isFinite(scale)\<close> is \<open>totalChance <= 0\<close>.
\<close>

fun pickType :: "(string \<times> real) list \<Rightarrow> real \<Rightarrow> real \<Rightarrow> real \<Rightarrow> string" where
  "pickType [] scale cumulative rand = ''basic''"
| "pickType ((type, chance) # rest) scale cumulative rand =
     (if rand < cumulative + chance * scale then type
      else pickType rest scale (cumulative + chance * scale) rand)"

definition getRandomEnemyTypeByWaveNumber :: "int \<Rightarrow> Engine \<Rightarrow> string \<times> Engine" where
  "getRandomEnemyTypeByWaveNumber wave s =
     (let w = real_of_int wave;
          basic = max 0 (1 - w * (8 / 100));
          fast = (if wave \<ge> 2 then min (4 / 10) (w * (5 / 100)) else 0);
          tank = (if wave \<ge> 3 then min (3 / 10) ((w - 2) * (4 / 100)) else 0);
          shooter = (if wave \<ge> 5 then min (25 / 100) ((w - 4) * (3 / 100)) else 0);
          totalChance = basic + fast + tank + shooter
      in if totalChance \<le> 0 then (''basic'', s)
         else
           (let scale = 1 / totalChance;
                (rand, s1) = nextRandom s
            in (pickType [(''basic'', basic), (''tank'', tank), (''fast'', fast),
                          (''shooter'', shooter)] scale 0 rand, s1)))"

text \<open>
  The world direction of a mesh turned by \<open>angle\<close> about the vertical axis, as
  \<open>mesh.getWorldDirection\<close> gives it after \<open>rotation.set(0, angle, 0)\<close>.
\<close>

definition yawDirection :: "real \<Rightarrow> vec3" where
  "yawDirection angle = (sin angle, 0, cos angle)"

text \<open>
  \<open>enemy.reset(type, config, position)\<close> on the store: the random numbers are read in
  the order of the source, the idle duration only when \<open>setState\<close> changes the state.
\<close>

definition resetEnemyAt :: "ref \<Rightarrow> string \<Rightarrow> vec3 \<Rightarrow> Engine \<Rightarrow> error + Engine" where
  "resetEnemyAt r type position s =
     (case (heap s r, map_of enemyTypes type) of
        (EEnemy e, Some config) \<Rightarrow>
          (let (rShoot, s1) = nextRandom s;
               (rRot, s2) = nextRandom s1;
               (rIdle, s3) = (if e_currentState e \<noteq> IDLE then nextRandom s2 else (0, s2));
               e' = Enemy_reset type config position rShoot rIdle
                      (yawDirection (rRot * pi * 2)) e
           in Inr (s3\<lparr> heap := (heap s3)(r := EEnemy e') \<rparr>))
      | _ \<Rightarrow> Inl TypeError)"

definition spawnEnemy :: "Engine \<Rightarrow> error + Engine" where
  "spawnEnemy s =
     (case getObjectFromPool ''enemies'' s of
        Inl err \<Rightarrow> Inl err
      | Inr (None, s1) \<Rightarrow> Inr s1
      | Inr (Some enemy, s1) \<Rightarrow>
          (let (type, s2) = getRandomEnemyTypeByWaveNumber (currentWave s1) s1;
               (spawnPosition, s3) = getRandomSpawnPosition s2
           in case resetEnemyAt enemy type spawnPosition s3 of
                Inl err \<Rightarrow> Inl err
              | Inr s4 \<Rightarrow>
                  Inr (s4\<lparr> activeEnemies := activeEnemies s4 @ [enemy],
                           enemiesActive := enemiesActive s4 + 1 \<rparr>)))"

definition spawnBullet :: "vec3 option \<Rightarrow> vec3 option \<Rightarrow> real \<Rightarrow> bool \<Rightarrow> Engine
    \<Rightarrow> error + Engine" where
  "spawnBullet originPos dir dmg isPlayer s =
     (case getObjectFromPool ''bullets'' s of
        Inl err \<Rightarrow> Inl err
      | Inr (None, s1) \<Rightarrow> Inr s1
      | Inr (Some bullet, s1) \<Rightarrow>
          (case heap s1 bullet of
             EBullet b \<Rightarrow>
               Inr (s1\<lparr> heap := (heap s1)(bullet :=
                             EBullet (Bullet_reset originPos dir dmg isPlayer b)),
                        activeBullets := activeBullets s1 @ [bullet] \<rparr>)
           | _ \<Rightarrow> Inl TypeError))"

text \<open>
  \<open>types[Math.floor(Math.random() * types.length)]\<close>; an index outside the array gives
  \<open>undefined\<close>, which as a key is the string \<open>undefined\<close>.
\<close>

definition pickPowerUpType :: "real \<Rightarrow> string" where
  "pickPowerUpType rnd =
     (let types = map fst powerUpTypes;
          i = \<lfloor>rnd * real (length types)\<rfloor>
      in if 0 \<le> i \<and> i < int (length types) then types ! nat i else ''undefined'')"

text \<open>
  \<open>spawnPowerUp(position)\<close>.  When \<open>powerUp.reset\<close> raises, the call ends before the
  power-up is pushed on \<open>activePowerUps\<close>, and so does the caller.
\<close>

definition spawnPowerUp :: "vec3 \<Rightarrow> Engine \<Rightarrow> error + Engine" where
  "spawnPowerUp position s =
     (case getObjectFromPool ''powerUps'' s of
        Inl err \<Rightarrow> Inl err
      | Inr (None, s1) \<Rightarrow> Inr s1
      | Inr (Some powerUp, s1) \<Rightarrow>
          (case heap s1 powerUp of
             EPowerUp p \<Rightarrow>
               (let (rType, s2) = nextRandom s1;
                    type = pickPowerUpType rType;
                    (rRot, s3) = nextRandom s2;
                    (rBob, s4) = nextRandom s3
                in case PowerUp_reset position type rRot rBob p of
                     Inl err \<Rightarrow> Inl err
                   | Inr p' \<Rightarrow>
                       Inr (s4\<lparr> heap := (heap s4)(powerUp := EPowerUp p'),
                                activePowerUps := activePowerUps s4 @ [powerUp] \<rparr>))
           | _ \<Rightarrow> Inl TypeError))"

subsection \<open>Cleanup\<close>

text \<open>\<open>Math.round\<close> rounds half up.\<close>

definition updateScore :: "real \<Rightarrow> Engine \<Rightarrow> Engine" where
  "updateScore amount s = s\<lparr> score := real_of_int \<lfloor>score s + amount + 1 / 2\<rfloor> \<rparr>"

text \<open>
  The local function \<open>cleanupList(list, poolName)\<close> of \<open>cleanupEntities\<close>: the filter
  visits the list in order; the result is the list of the objects kept.
\<close>

fun cleanupList :: "ref list \<Rightarrow> string option \<Rightarrow> Engine \<Rightarrow> ref list \<times> Engine" where
  "cleanupList [] poolName s = ([], s)"
| "cleanupList (entity # rest) poolName s =
     (if is_destroyed (heap s entity) then
        (let s1 = (if has_mesh (heap s entity) then s\<lparr> scene := scene s - {entity} \<rparr>
                   else s);
             s2 = (case poolName of
                     Some n \<Rightarrow> returnObjectToPool (Some entity) n s1
                   | None \<Rightarrow> s1)
         in cleanupList rest poolName s2)
      else
        (let r = cleanupList rest poolName s in (entity # fst r, snd r)))"

text \<open>
  The loop over \<open>activeEnemies\<close> (``special handling for enemies''), with the list
  \<open>remainingEnemies\<close> as result.  An enemy has a mesh, so \<open>if (enemy.mesh)\<close> holds;
  \<open>enemy.dropChance\<close> is always a number, so \<open>enemy.dropChance ?? 0.05\<close> is
  \<open>enemy.dropChance\<close>.
\<close>

fun cleanupEnemies :: "ref list \<Rightarrow> Engine \<Rightarrow> error + (ref list \<times> Engine)" where
  "cleanupEnemies [] s = Inr ([], s)"
| "cleanupEnemies (r # rest) s =
     (if is_destroyed (heap s r) then
        (case heap s r of
           EEnemy enemy \<Rightarrow>
             (let s1 = s\<lparr> enemiesActive := enemiesActive s - 1 \<rparr>;
                  s2 = updateScore (e_score enemy) s1;
                  s3 = s2\<lparr> scene := scene s2 - {r} \<rparr>;
                  (rnd, s4) = nextRandom s3
              in case (if rnd < e_dropChance enemy then spawnPowerUp (e_position enemy) s4
                       else Inr s4) of
                   Inl err \<Rightarrow> Inl err
                 | Inr s5 \<Rightarrow> cleanupEnemies rest (returnObjectToPool (Some r) ''enemies'' s5))
         | _ \<Rightarrow> Inl TypeError)
      else
        (case cleanupEnemies rest s of
           Inl err \<Rightarrow> Inl err
         | Inr (remaining, s') \<Rightarrow> Inr (r # remaining, s')))"

definition cleanupEntities :: "Engine \<Rightarrow> error + Engine" where
  "cleanupEntities s =
     (let b = cleanupList (activeBullets s) (Some ''bullets'') s;
          s1 = (snd b)\<lparr> activeBullets := fst b \<rparr>;
          p = cleanupList (activePowerUps s1) (Some ''powerUps'') s1;
          s2 = (snd p)\<lparr> activePowerUps := fst p \<rparr>;
          f = cleanupList (activeEffects s2) None s2;
          s3 = (snd f)\<lparr> activeEffects := fst f \<rparr>
      in case cleanupEnemies (activeEnemies s3) s3 of
           Inl err \<Rightarrow> Inl err
         | Inr (remainingEnemies, s4) \<Rightarrow> Inr (s4\<lparr> activeEnemies := remainingEnemies \<rparr>))"

subsection \<open>Waves and game state\<close>

definition calculateEnemiesForWave :: "int \<Rightarrow> int" where
  "calculateEnemiesForWave wave = \<lfloor>5 + real_of_int wave * (3 / 2)\<rfloor>"

text \<open>
  \<open>startNextWave()\<close>: the assignments.  The spawning itself is left to a timer
  (\<open>setInterval\<close>) that fires later, every \<open>spawnInterval\<close> ms; \<open>spawnTimerTick\<close> is
  one firing of it, with the closure's counter \<open>spawnedCount\<close> (\<open>None\<close> once the timer
  has been cleared).
\<close>

definition startNextWave :: "Engine \<Rightarrow> Engine" where
  "startNextWave s =
     (let s1 = s\<lparr> currentWave := currentWave s + 1, gameState := PLAYING \<rparr>;
          s2 = s1\<lparr> enemiesToSpawn := calculateEnemiesForWave (currentWave s1) \<rparr>
      in s2\<lparr> enemiesRemainingInWave := enemiesToSpawn s2, enemiesActive := 0 \<rparr>)"

definition spawnInterval :: "Engine \<Rightarrow> real" where
  "spawnInterval s = max 200 (1500 - real_of_int (currentWave s) * 50)"

definition spawnTimerTick :: "int \<Rightarrow> Engine \<Rightarrow> error + (int option \<times> Engine)" where
  "spawnTimerTick spawnedCount s =
     (if spawnedCount < enemiesToSpawn s \<and> gameState s = PLAYING then
        (case spawnEnemy s of
           Inl err \<Rightarrow> Inl err
         | Inr s1 \<Rightarrow> Inr (Some (spawnedCount + 1), s1))
      else Inr (None, s))"

definition updateGameState :: "real \<Rightarrow> Engine \<Rightarrow> Engine" where
  "updateGameState dt s =
     (if gameState s = PLAYING then
        (if enemiesRemainingInWave s > 0 \<and> enemiesActive s \<le> 0
         then s\<lparr> gameState := WAVE_TRANSITION,
                 waveCooldownTimer := waveCooldownDuration s \<rparr>
         else s)
      else if gameState s = WAVE_TRANSITION then
        (let s1 = s\<lparr> waveCooldownTimer := waveCooldownTimer s - dt * 1000 \<rparr>
         in if waveCooldownTimer s1 \<le> 0 then startNextWave s1 else s1)
      else s)"

text \<open>
  \<open>resetGame()\<close> and \<open>transitionToGame()\<close>, on the fields of the model (the player and
  the camera are reset as well).  An active object is handed to
  \<open>returnObjectToPool\<close> only if its pool already \<open>includes\<close> it.
\<close>

definition poolIncludes :: "Engine \<Rightarrow> string \<Rightarrow> ref \<Rightarrow> bool" where
  "poolIncludes s n r = (case pools s n of None \<Rightarrow> False | Some pool \<Rightarrow> r \<in> set pool)"

definition resetEntity :: "ref \<Rightarrow> Engine \<Rightarrow> Engine" where
  "resetEntity r s =
     (let s1 = (if has_mesh (heap s r) then s\<lparr> scene := scene s - {r} \<rparr> else s)
      in if poolIncludes s1 ''bullets'' r then returnObjectToPool (Some r) ''bullets'' s1
         else if poolIncludes s1 ''enemies'' r then returnObjectToPool (Some r) ''enemies'' s1
         else if poolIncludes s1 ''powerUps'' r then returnObjectToPool (Some r) ''powerUps'' s1
         else s1)"

definition resetGame :: "Engine \<Rightarrow> Engine" where
  "resetGame s =
     (let s1 = s\<lparr> score := 0, currentWave := 0 \<rparr>;
          s2 = fold resetEntity
                 (activeBullets s1 @ activeEnemies s1 @ activePowerUps s1 @ activeEffects s1) s1
      in s2\<lparr> activeBullets := [], activeEnemies := [], activePowerUps := [],
             activeEffects := [], enemiesToSpawn := 0, enemiesRemainingInWave := 0,
             enemiesActive := 0, waveCooldownTimer := 0 \<rparr>)"

definition transitionToGame :: "Engine \<Rightarrow> Engine" where
  "transitionToGame s =
     (if gameState s = TITLE \<or> gameState s = GAME_OVER then
        (let s1 = resetGame s
         in s1\<lparr> gameState := WAVE_TRANSITION,
                waveCooldownTimer := waveCooldownDuration s1 \<rparr>)
      else s)"


subsection \<open>What the cleanup pass establishes\<close>

text \<open>
  An object is in the world when it has a mesh and the mesh is in the scene; it has
  been returned to a pool when it is out of the world and in that pool's array; it is
  active when one of the four active lists holds it.  The three pools of the
  constructor are registered when \<open>this.pools\<close> has them.
\<close>

definition in_world :: "Engine \<Rightarrow> ref \<Rightarrow> bool" where
  "in_world s r = (has_mesh (heap s r) \<and> r \<in> scene s)"

definition returned :: "Engine \<Rightarrow> string \<Rightarrow> ref \<Rightarrow> bool" where
  "returned s n r = (\<not> in_world s r \<and> poolIncludes s n r)"


definition registered :: "Engine \<Rightarrow> bool" where
  "registered s = (pools s ''bullets'' \<noteq> None \<and> pools s ''enemies'' \<noteq> None
     \<and> pools s ''powerUps'' \<noteq> None)"

text \<open>
  The relation between a state and a later state of the same pass that the proof
  carries along: no object becomes destroyed, meshes stay, an object that is still
  destroyed stays returned and stays out of the world, and pools stay registered.
  \<open>powerUps_ok\<close> says that only \<open>activePowerUps\<close> changed among the lists, by objects
  that are not destroyed.
\<close>

definition pass :: "Engine \<Rightarrow> Engine \<Rightarrow> bool" where
  "pass s s' =
     ((\<forall>r. \<not> is_destroyed (heap s r) \<longrightarrow> \<not> is_destroyed (heap s' r))
      \<and> (\<forall>r. has_mesh (heap s' r) = has_mesh (heap s r))
      \<and> (\<forall>n r. is_destroyed (heap s' r) \<longrightarrow> returned s n r \<longrightarrow> returned s' n r)
      \<and> (\<forall>r. is_destroyed (heap s' r) \<longrightarrow> \<not> in_world s r \<longrightarrow> \<not> in_world s' r)
      \<and> (\<forall>n. pools s n \<noteq> None \<longrightarrow> pools s' n \<noteq> None))"


text \<open>
  What the pass relies on: \<open>activeEnemies\<close> holds enemies, and \<open>activePowerUps\<close> and
  the registered pool \<open>powerUps\<close> hold power-ups on which \<open>reset\<close> does not raise,
  those with a physics body or with a \<open>Physics\<close> object to create one.
\<close>

fun is_enemy :: "entity \<Rightarrow> bool" where
  "is_enemy (EEnemy e) = True"
| "is_enemy _ = False"

fun resettable :: "entity \<Rightarrow> bool" where
  "resettable (EPowerUp p) = (pu_physicsBody p \<noteq> None \<or> pu_physics p)"
| "resettable _ = False"

definition powerUpPool_ok :: "Engine \<Rightarrow> bool" where
  "powerUpPool_ok s =
     (\<exists>pool. pools s ''powerUps'' = Some pool \<and> (\<forall>r \<in> set pool. resettable (heap s r)))"

definition well_kinded :: "Engine \<Rightarrow> bool" where
  "well_kinded s =
     ((\<forall>r \<in> set (activeEnemies s). is_enemy (heap s r))
      \<and> (\<forall>r \<in> set (activePowerUps s). resettable (heap s r))
      \<and> powerUpPool_ok s)"


subsection \<open>Scenarios\<close>

text \<open>
  A store with three bullets (\<open>0\<close> destroyed after a flight, \<open>1\<close> in flight, \<open>2\<close> as
  constructed), two basic enemies (\<open>3\<close> destroyed, \<open>4\<close> alive), an active power-up
  (\<open>5\<close>), a power-up constructed for an engine whose \<open>physics\<close> had been set (\<open>6\<close>), a
  destroyed effect with a mesh (\<open>7\<close>), and power-ups constructed for the engine as
  the repository leaves it, without \<open>physics\<close> (the others).
\<close>

definition live_bullet :: Bullet where
  "live_bullet = Bullet_reset (Some (0, 1, 0)) (Some (0, 0, -1)) 8 True new_Bullet"

definition live_powerUp :: PowerUp where
  "live_powerUp = \<lparr> pu_physics = True, pu_type = ''speed'',
     pu_config = Some \<lparr> pcfg_duration = 5000 \<rparr>, pu_destroyed = False, pu_bobTimer = 0,
     pu_visible = True, pu_position = (1, 0, 1), pu_rotationY = 0,
     pu_physicsBody = Some \<lparr> body_position = (1, 0, 1), body_velocity = vzero \<rparr> \<rparr>"

definition heap0 :: "ref \<Rightarrow> entity" where
  "heap0 r =
     (if r = 0 then EBullet (Bullet_destroy live_bullet)
      else if r = 1 then EBullet live_bullet
      else if r = 2 then EBullet new_Bullet
      else if r = 3 then EEnemy (Enemy_destroy basic_enemy)
      else if r = 4 then EEnemy basic_enemy
      else if r = 5 then EPowerUp live_powerUp
      else if r = 6 then EPowerUp (new_PowerUp True 0)
      else if r = 7 then EEffect \<lparr> fx_destroyed = True, fx_hasMesh = True \<rparr>
      else EPowerUp (new_PowerUp False 0))"

text \<open>The engine after its constructor, with every random number \<open>0\<close>.\<close>

definition engine0 :: Engine where
  "engine0 = new_GameEngine3D heap0 (\<lambda>n. 0)"

text \<open>
  The first wave: Enter on the title screen, then a frame after the three seconds of
  the first countdown, which calls \<open>startNextWave\<close>.
\<close>

definition wave1_started :: Engine where
  "wave1_started = updateGameState 3 (transitionToGame engine0)"

text \<open>
  A state in the middle of a wave, before a cleanup pass: bullet \<open>0\<close>, enemy \<open>3\<close> and
  effect \<open>7\<close> are destroyed and still in their active lists and in the scene; bullet
  \<open>2\<close> and power-up \<open>6\<close> are pooled.  \<open>cleanup_result0\<close> is the state after the pass.
  In \<open>cleanup_state1\<close> the pooled power-up is \<open>8\<close>, which has no \<open>Physics\<close> object.
\<close>

definition cleanup_state0 :: Engine where
  "cleanup_state0 = engine0\<lparr>
     gameState := PLAYING, currentWave := 1, enemiesToSpawn := 6,
     enemiesRemainingInWave := 6, enemiesActive := 2,
     activeEnemies := [3, 4], activeBullets := [0, 1], activePowerUps := [5],
     activeEffects := [7],
     pools := [''enemies'' \<mapsto> [], ''bullets'' \<mapsto> [2], ''powerUps'' \<mapsto> [6]],
     scene := {0, 1, 3, 4, 5, 7} \<rparr>"


definition cleanup_state1 :: Engine where
  "cleanup_state1 = cleanup_state0\<lparr>
     pools := [''enemies'' \<mapsto> [], ''bullets'' \<mapsto> [2], ''powerUps'' \<mapsto> [8]] \<rparr>"

section \<open>Verification: WeaponManager\<close>

lemma fire_fails_iff:
  "(\<not> fst (fire p d wm)) =
     (currentWeapon wm = None \<or> fireTimer wm > 0 \<or>
      (\<exists>w. currentWeapon wm = Some w \<and> ammoCurrent w \<noteq> Infinity \<and> \<not> ammo_pos (ammoCurrent w)))"
  by (auto simp: fire_def canFire_def currentWeapon_def split: option.splits)

lemma elapsed_nonneg: "ticks_nonneg acts \<Longrightarrow> 0 \<le> elapsed acts"
  by (induction acts rule: elapsed.induct) auto

lemma fire_on_cooldown: "fireTimer wm > 0 \<Longrightarrow> fire p d wm = (False, wm, None)"
  by (auto simp: fire_def canFire_def split: option.splits)

lemma run_on_cooldown:
  "ticks_nonneg acts \<Longrightarrow> elapsed acts < fireTimer wm \<Longrightarrow> True \<notin> set (fst (wm_run p d acts wm))"
proof (induction acts arbitrary: wm rule: elapsed.induct)
  case 1
  then show ?case by simp
next
  case (2 dt acts)
  from 2 elapsed_nonneg[of acts] have "fireTimer wm > 0" by simp
  with 2 show ?case by (simp add: WeaponManager_update_def)
next
  case (3 acts)
  from 3 elapsed_nonneg[of acts] have "fireTimer wm > 0" by simp
  with 3 show ?case by (simp add: fire_on_cooldown Let_def)
qed

lemma map_of_entry_update:
  "map_of (entry_update i f xs) k = (if k = i then map_option f (map_of xs i) else map_of xs k)"
  by (induction xs) auto

lemma entry_update_all:
  "list_all (\<lambda>(k, w). P w) xs \<Longrightarrow> (\<And>w. map_of xs i = Some w \<Longrightarrow> P (f w))
     \<Longrightarrow> list_all (\<lambda>(k, w). P w) (entry_update i f xs)"
  by (induction xs) auto

lemma fire_ammo_ok: "ammo_ok (fst (snd (fire p d wm)))" if "ammo_ok wm"
proof (cases "canFire wm")
  case False
  then show ?thesis using that by (simp add: fire_def)
next
  case True
  then obtain i w where iw: "equippedWeaponId wm = Some i" "map_of (weapons wm) i = Some w"
    and pos: "ammoCurrent w = Infinity \<or> ammo_pos (ammoCurrent w)"
    by (auto simp: canFire_def currentWeapon_def split: option.splits if_splits)
  have "ammo_nonneg (ammoCurrent (if ammoCurrent w \<noteq> Infinity
          then w\<lparr> ammoCurrent := ammo_dec (ammoCurrent w) \<rparr> else w))"
    using pos by (cases "ammoCurrent w") auto
  with iw that True show ?thesis
    by (auto simp: fire_def ammo_ok_def currentWeapon_def intro!: entry_update_all)
qed

lemma run_ammo_ok: "ammo_ok wm \<Longrightarrow> ammo_ok (snd (wm_run p d acts wm))"
proof (induction acts arbitrary: wm rule: elapsed.induct)
  case 1 then show ?case by simp
next
  case (2 dt acts)
  then show ?case by (simp add: WeaponManager_update_def ammo_ok_def)
next
  case (3 acts)
  from fire_ammo_ok[OF 3(2), of p d] 3(1) show ?case
    by (simp add: Let_def)
qed

lemma fire_success:
  assumes "fst (fire p d wm)" and "currentWeapon wm = Some w"
  shows "fireTimer (fst (snd (fire p d wm))) = cooldown w"
    and "currentWeapon (fst (snd (fire p d wm)))
         = Some (if ammoCurrent w \<noteq> Infinity
                 then w\<lparr> ammoCurrent := ammo_dec (ammoCurrent w) \<rparr> else w)"
  using assms
  by (auto simp: fire_def canFire_def currentWeapon_def map_of_entry_update
           split: option.splits if_splits)

lemma fire_failed_same: "\<not> fst (fire p d wm) \<Longrightarrow> fst (snd (fire p d wm)) = wm"
  by (auto simp: fire_def split: option.splits)

lemma run_idle:
  "fireTimer wm \<le> 0 \<Longrightarrow> True \<notin> set (fst (wm_run p d acts wm))
     \<Longrightarrow> snd (wm_run p d acts wm) = wm"
proof (induction acts arbitrary: wm rule: elapsed.induct)
  case 1
  then show ?case by simp
next
  case (2 dt acts)
  then show ?case by (simp add: WeaponManager_update_def)
next
  case (3 acts)
  from 3(3) have f: "\<not> fst (fire p d wm)" by (simp add: Let_def)
  with 3 show ?case by (simp add: Let_def fire_failed_same)
qed

lemma run_no_success:
  "True \<notin> set (fst (wm_run p d acts wm)) \<Longrightarrow>
     weapons (snd (wm_run p d acts wm)) = weapons wm
     \<and> equippedWeaponId (snd (wm_run p d acts wm)) = equippedWeaponId wm
     \<and> (fireTimer (snd (wm_run p d acts wm)) \<le> 0
          \<or> fireTimer (snd (wm_run p d acts wm)) = fireTimer wm - elapsed acts)"
proof (induction acts arbitrary: wm rule: elapsed.induct)
  case 1
  then show ?case by simp
next
  case (2 dt acts)
  show ?case
  proof (cases "fireTimer wm > 0")
    case True
    with 2 show ?thesis by (fastforce simp: WeaponManager_update_def)
  next
    case False
    with 2(2) run_idle[of wm p d "Tick dt # acts"] show ?thesis by simp
  qed
next
  case (3 acts)
  from 3(2) have f: "\<not> fst (fire p d wm)" by (simp add: Let_def)
  with 3 show ?case by (simp add: Let_def fire_failed_same)
qed

lemma fire_again:
  assumes ok: "fst (fire p d wm)" and w: "currentWeapon wm = Some w"
    and none: "True \<notin> set (fst (wm_run p d acts (fst (snd (fire p d wm)))))"
    and t: "cooldown w \<le> elapsed acts"
    and am: "ammoCurrent w = Infinity \<or> ammo_pos (ammo_dec (ammoCurrent w))"
  shows "fst (fire p d (snd (wm_run p d acts (fst (snd (fire p d wm))))))"
proof -
  define wm1 where "wm1 = fst (snd (fire p d wm))"
  define wm2 where "wm2 = snd (wm_run p d acts wm1)"
  have t1: "fireTimer wm1 = cooldown w"
    and c1: "currentWeapon wm1 = Some (if ammoCurrent w \<noteq> Infinity
                 then w\<lparr> ammoCurrent := ammo_dec (ammoCurrent w) \<rparr> else w)"
    using fire_success[OF ok w] by (simp_all add: wm1_def)
  from run_no_success[OF none[folded wm1_def]]
  have s: "weapons wm2 = weapons wm1" "equippedWeaponId wm2 = equippedWeaponId wm1"
    "fireTimer wm2 \<le> 0 \<or> fireTimer wm2 = fireTimer wm1 - elapsed acts"
    by (simp_all add: wm2_def)
  have c2: "currentWeapon wm2 = currentWeapon wm1"
    unfolding currentWeapon_def s(1) s(2) ..
  from s(3) t1 t have "fireTimer wm2 \<le> 0" by auto
  moreover from c1 c2 have "currentWeapon wm2 = Some (if ammoCurrent w \<noteq> Infinity
                 then w\<lparr> ammoCurrent := ammo_dec (ammoCurrent w) \<rparr> else w)"
    by simp
  ultimately have "\<not> \<not> fst (fire p d wm2)"
    unfolding fire_fails_iff using am by auto
  then show ?thesis by (simp add: wm2_def wm1_def)
qed

text \<open>
  Claim C6.  \<open>fire()\<close> returns \<open>false\<close> exactly when no weapon is equipped, the cooldown
  timer is still positive, or the ammunition is finite and not positive.  A successful
  \<open>fire()\<close> sets the timer to the weapon's cooldown and takes one round from a finite
  count.  The cooldown is elapsed time in both directions: after a success, every
  further \<open>fire()\<close> fails as long as the frames since then add up to less than the
  cooldown; and once the frames since then add up to at least the cooldown, with no
  \<open>fire()\<close> having succeeded in between and a round left (or infinite ammunition), the
  next \<open>fire()\<close> succeeds.  A run of frames and \<open>fire()\<close> calls never makes a count
  negative.
\<close>

theorem fire_contract:
  "((\<not> fst (fire p d wm)) =
       (currentWeapon wm = None \<or> fireTimer wm > 0 \<or>
        (\<exists>w. currentWeapon wm = Some w \<and> ammoCurrent w \<noteq> Infinity
             \<and> \<not> ammo_pos (ammoCurrent w))))
   \<and> (fst (fire p d wm) \<and> currentWeapon wm = Some w \<longrightarrow>
        fireTimer (fst (snd (fire p d wm))) = cooldown w
      \<and> currentWeapon (fst (snd (fire p d wm)))
          = Some (if ammoCurrent w \<noteq> Infinity
                  then w\<lparr> ammoCurrent := ammo_dec (ammoCurrent w) \<rparr> else w)
      \<and> (ticks_nonneg acts \<and> elapsed acts < cooldown w \<longrightarrow>
           True \<notin> set (fst (wm_run p d acts (fst (snd (fire p d wm))))))
      \<and> (True \<notin> set (fst (wm_run p d later (fst (snd (fire p d wm)))))
           \<and> cooldown w \<le> elapsed later
           \<and> (ammoCurrent w = Infinity \<or> ammo_pos (ammo_dec (ammoCurrent w))) \<longrightarrow>
           fst (fire p d (snd (wm_run p d later (fst (snd (fire p d wm))))))))
   \<and> (ammo_ok wm \<longrightarrow>
        ammo_ok (fst (snd (fire p d wm))) \<and> ammo_ok (snd (wm_run p d acts wm)))"
proof (intro conjI impI)
  show "(\<not> fst (fire p d wm)) =
       (currentWeapon wm = None \<or> fireTimer wm > 0 \<or>
        (\<exists>w. currentWeapon wm = Some w \<and> ammoCurrent w \<noteq> Infinity
             \<and> \<not> ammo_pos (ammoCurrent w)))"
    by (rule fire_fails_iff)
next
  assume a: "fst (fire p d wm) \<and> currentWeapon wm = Some w"
  then show t: "fireTimer (fst (snd (fire p d wm))) = cooldown w"
    by (simp add: fire_success)
  from a show "currentWeapon (fst (snd (fire p d wm)))
          = Some (if ammoCurrent w \<noteq> Infinity
                  then w\<lparr> ammoCurrent := ammo_dec (ammoCurrent w) \<rparr> else w)"
    by (simp add: fire_success)
  {
    assume "ticks_nonneg acts \<and> elapsed acts < cooldown w"
    with t show "True \<notin> set (fst (wm_run p d acts (fst (snd (fire p d wm)))))"
      by (intro run_on_cooldown) simp_all
  }
  assume "True \<notin> set (fst (wm_run p d later (fst (snd (fire p d wm)))))
           \<and> cooldown w \<le> elapsed later
           \<and> (ammoCurrent w = Infinity \<or> ammo_pos (ammo_dec (ammoCurrent w)))"
  with a show "fst (fire p d (snd (wm_run p d later (fst (snd (fire p d wm))))))"
    by (intro fire_again[of p d wm w later]) simp_all
next
  assume "ammo_ok wm"
  then show "ammo_ok (fst (snd (fire p d wm)))" "ammo_ok (snd (wm_run p d acts wm))"
    by (simp_all add: fire_ammo_ok run_ammo_ok)
qed

lemmas wm_eval_defs =
  new_WeaponManager_def loadDefaultWeapons_def defaultWeapons_def addWeapon_def
  weapons_has_def noneEquipped_def equipWeapon_def fire_def canFire_def currentWeapon_def
  pistol_def rifle_def switchToNextWeapon_def switchToPreviousWeapon_def
  WeaponManager_update_def ammo_ok_def wm_after_shot_def wm_after_switch_def vzero_def

theorem fire_contract_witness:
  "fst (fire vzero vzero wm_after_switch)
   \<and> currentWeapon wm_after_switch = Some rifle
   \<and> ticks_nonneg [Fire, Tick (1 / 20), Fire]
   \<and> elapsed [Fire, Tick (1 / 20), Fire] < cooldown rifle
   \<and> fireTimer (fst (snd (fire vzero vzero wm_after_switch))) = 1 / 10
   \<and> currentWeapon (fst (snd (fire vzero vzero wm_after_switch)))
       = Some (rifle\<lparr> ammoCurrent := Rounds 149 \<rparr>)
   \<and> True \<notin> set (fst (wm_run vzero vzero [Fire, Tick (1 / 20), Fire]
                        (fst (snd (fire vzero vzero wm_after_switch)))))
   \<and> cooldown rifle \<le> elapsed [Tick (1 / 20), Fire, Tick (1 / 20)]
   \<and> fst (wm_run vzero vzero [Tick (1 / 20), Fire, Tick (1 / 20)]
            (fst (snd (fire vzero vzero wm_after_switch)))) = [False]
   \<and> fst (fire vzero vzero (snd (wm_run vzero vzero [Tick (1 / 20), Fire, Tick (1 / 20)]
                                   (fst (snd (fire vzero vzero wm_after_switch))))))
   \<and> ammo_ok wm_after_switch
   \<and> ammo_ok (snd (wm_run vzero vzero [Fire, Tick (1 / 20), Fire] wm_after_switch))"
proof -
  have h1: "fst (fire vzero vzero wm_after_switch) \<and> currentWeapon wm_after_switch = Some rifle"
    by (simp add: wm_eval_defs)
  have h2: "ticks_nonneg [Fire, Tick (1 / 20), Fire]
      \<and> elapsed [Fire, Tick (1 / 20), Fire] < cooldown rifle"
    by (simp add: rifle_def)
  have h3: "ammo_ok wm_after_switch"
    by (simp add: wm_eval_defs)
  have r: "(if ammoCurrent rifle \<noteq> Infinity
            then rifle\<lparr> ammoCurrent := ammo_dec (ammoCurrent rifle) \<rparr> else rifle)
           = rifle\<lparr> ammoCurrent := Rounds 149 \<rparr>" "cooldown rifle = 1 / 10"
    by (simp_all add: rifle_def)
  have h4: "fst (wm_run vzero vzero [Tick (1 / 20), Fire, Tick (1 / 20)]
            (fst (snd (fire vzero vzero wm_after_switch)))) = [False]"
    by (simp add: wm_eval_defs Let_def)
  have h5: "cooldown rifle \<le> elapsed [Tick (1 / 20), Fire, Tick (1 / 20)]
      \<and> (ammoCurrent rifle = Infinity \<or> ammo_pos (ammo_dec (ammoCurrent rifle)))"
    by (simp add: rifle_def)
  from fire_contract[of vzero vzero wm_after_switch rifle "[Fire, Tick (1 / 20), Fire]"
      "[Tick (1 / 20), Fire, Tick (1 / 20)]"]
    h1 h2 h3 h4 h5 r
  show ?thesis by simp
qed

text \<open>
  Claim C3 as stated fails: after the pistol has been fired its cooldown is running
  and \<open>fire()\<close> is refused, but selecting the next weapon makes \<open>fire()\<close> succeed with
  no time elapsed.
\<close>

theorem switch_allows_instant_fire:
  "0 < fireTimer wm_after_shot
   \<and> \<not> fst (fire vzero vzero wm_after_shot)
   \<and> equippedWeaponId wm_after_switch = Some ''rifle''
   \<and> 0 < cooldown rifle
   \<and> fst (fire vzero vzero wm_after_switch)"
  by (simp add: wm_eval_defs)

text \<open>
  Claim C3 as amended.  Equipping a registered weapon other than the equipped one
  sets the fire-cooldown timer to \<open>0\<close>, so that \<open>fire()\<close> succeeds right after the
  switch exactly when the new weapon's ammunition is infinite or positive; any other
  \<open>equipWeapon\<close> changes nothing.  \<open>switchToNextWeapon\<close> and \<open>switchToPreviousWeapon\<close>
  either change nothing or are such an \<open>equipWeapon\<close>.
\<close>

theorem equipWeapon_clears_cooldown:
  "(fst (equipWeapon i wm) \<and> map_of (weapons wm) i = Some w \<longrightarrow>
        equippedWeaponId (snd (equipWeapon i wm)) = Some i
      \<and> fireTimer (snd (equipWeapon i wm)) = 0
      \<and> fst (fire p d (snd (equipWeapon i wm)))
          = (ammoCurrent w = Infinity \<or> ammo_pos (ammoCurrent w)))
   \<and> (\<not> fst (equipWeapon i wm) \<longrightarrow> snd (equipWeapon i wm) = wm)
   \<and> (switchToNextWeapon wm = wm
        \<or> (\<exists>j. fst (equipWeapon j wm) \<and> switchToNextWeapon wm = snd (equipWeapon j wm)))
   \<and> (switchToPreviousWeapon wm = wm
        \<or> (\<exists>j. fst (equipWeapon j wm) \<and> switchToPreviousWeapon wm = snd (equipWeapon j wm)))"
proof (intro conjI impI)
  assume a: "fst (equipWeapon i wm) \<and> map_of (weapons wm) i = Some w"
  then show "equippedWeaponId (snd (equipWeapon i wm)) = Some i"
    and "fireTimer (snd (equipWeapon i wm)) = 0"
    by (auto simp: equipWeapon_def split: if_splits)
  from a show "fst (fire p d (snd (equipWeapon i wm)))
          = (ammoCurrent w = Infinity \<or> ammo_pos (ammoCurrent w))"
    by (auto simp: equipWeapon_def fire_def canFire_def currentWeapon_def split: if_splits)
next
  assume "\<not> fst (equipWeapon i wm)"
  then show "snd (equipWeapon i wm) = wm"
    by (auto simp: equipWeapon_def split: if_splits)
next
  have e: "snd (equipWeapon j wm) = wm \<or> fst (equipWeapon j wm)" for j
    by (auto simp: equipWeapon_def)
  show "switchToNextWeapon wm = wm
        \<or> (\<exists>j. fst (equipWeapon j wm) \<and> switchToNextWeapon wm = snd (equipWeapon j wm))"
    unfolding switchToNextWeapon_def Let_def using e by metis
  show "switchToPreviousWeapon wm = wm
        \<or> (\<exists>j. fst (equipWeapon j wm) \<and> switchToPreviousWeapon wm = snd (equipWeapon j wm))"
    unfolding switchToPreviousWeapon_def Let_def using e by metis
qed

theorem equipWeapon_clears_cooldown_witness:
  "fst (equipWeapon ''rifle'' wm_after_shot)
   \<and> map_of (weapons wm_after_shot) ''rifle'' = Some rifle
   \<and> fireTimer wm_after_shot = 3 / 10
   \<and> fireTimer (snd (equipWeapon ''rifle'' wm_after_shot)) = 0
   \<and> fst (fire vzero vzero (snd (equipWeapon ''rifle'' wm_after_shot)))
   \<and> \<not> fst (equipWeapon ''pistol'' wm_after_shot)
   \<and> snd (equipWeapon ''pistol'' wm_after_shot) = wm_after_shot"
proof -
  have h: "fst (equipWeapon ''rifle'' wm_after_shot)
      \<and> map_of (weapons wm_after_shot) ''rifle'' = Some rifle"
    by (simp add: wm_eval_defs)
  have n: "\<not> fst (equipWeapon ''pistol'' wm_after_shot)" "fireTimer wm_after_shot = 3 / 10"
    by (simp_all add: wm_eval_defs)
  have r: "ammoCurrent rifle = Infinity \<or> ammo_pos (ammoCurrent rifle)"
    by (simp add: rifle_def)
  from equipWeapon_clears_cooldown[of "''rifle''" wm_after_shot rifle vzero vzero] h r
       equipWeapon_clears_cooldown[of "''pistol''" wm_after_shot rifle vzero vzero] n
  show ?thesis by simp
qed

section \<open>Verification: Player\<close>

lemma Player_die_fields:
  "pl_health (fst (Player_die p)) = pl_health p"
  "pl_maxHealth (fst (Player_die p)) = pl_maxHealth p"
  by (simp_all add: Player_die_def)

lemma Player_takeDamage_health:
  "pl_health (fst (snd (Player_takeDamage a p))) =
     (if pl_isInvincible p \<or> pl_isShielded p \<or> pl_destroyed p then pl_health p
      else max 0 (pl_health p - a))"
  "pl_maxHealth (fst (snd (Player_takeDamage a p))) = pl_maxHealth p"
  by (simp_all add: Player_takeDamage_def Player_applyInvincibility_def Let_def
        Player_die_fields)

lemma Player_heal_health:
  "pl_health (Player_heal a p) =
     (if pl_destroyed p then pl_health p else min (pl_maxHealth p) (pl_health p + a))"
  "pl_maxHealth (Player_heal a p) = pl_maxHealth p"
  by (simp_all add: Player_heal_def)

lemma Player_updateTimers_health:
  "pl_health (Player_updateTimers dt p) = pl_health p"
  "pl_maxHealth (Player_updateTimers dt p) = pl_maxHealth p"
  by (simp_all add: Player_updateTimers_def Let_def)

lemma player_step_in_range:
  "health_in_range p \<Longrightarrow> amount_nonneg c \<Longrightarrow> health_in_range (player_step c p)"
  by (cases c)
     (auto simp: health_in_range_def Player_takeDamage_health Player_heal_health
                 Player_updateTimers_health)

lemma player_run_in_range:
  "health_in_range p \<Longrightarrow> list_all amount_nonneg calls
     \<Longrightarrow> health_in_range (player_run calls p)"
  unfolding player_run_def
  by (induction calls arbitrary: p) (auto simp: player_step_in_range)

lemmas player_eval_defs =
  health_in_range_def player_run_def new_Player_def Player_takeDamage_def Player_heal_def
  Player_applyInvincibility_def Player_updateTimers_def Player_die_def Let_def

text \<open>
  Claim C9 as stated fails: the amounts are not checked, and a negative amount takes
  the health of a new player (\<open>100\<close> of \<open>100\<close>) out of the range, \<open>takeDamage(-50)\<close>
  above \<open>maxHealth\<close> and \<open>heal(-200)\<close> below \<open>0\<close>.
\<close>

theorem negative_amount_leaves_range:
  "health_in_range new_Player
   \<and> pl_health (player_run [TakeDamage (- 50)] new_Player) = 150
   \<and> \<not> health_in_range (player_run [TakeDamage (- 50)] new_Player)
   \<and> pl_health (player_run [Heal (- 200)] new_Player) = - 100
   \<and> \<not> health_in_range (player_run [Heal (- 200)] new_Player)"
  by (simp add: player_eval_defs)

text \<open>
  Claim C9 as amended.  From a state with the health in \<open>[0, maxHealth]\<close>, every
  sequence of \<open>takeDamage\<close> and \<open>heal\<close> calls with non-negative amounts (and frames in
  between) keeps it there.  For any amount, \<open>takeDamage\<close> that applies leaves the
  health at least \<open>0\<close>, and \<open>heal\<close> on a live player leaves it at most \<open>maxHealth\<close>.
\<close>

theorem player_health_in_range:
  "(health_in_range p \<and> list_all amount_nonneg calls \<longrightarrow>
      health_in_range (player_run calls p))
   \<and> (\<not> (pl_isInvincible p \<or> pl_isShielded p \<or> pl_destroyed p) \<longrightarrow>
        0 \<le> pl_health (fst (snd (Player_takeDamage a p))))
   \<and> (\<not> pl_destroyed p \<longrightarrow> pl_health (Player_heal a p) \<le> pl_maxHealth p)"
  by (auto simp: player_run_in_range Player_takeDamage_health Player_heal_health)

theorem player_health_in_range_witness:
  "health_in_range new_Player
   \<and> list_all amount_nonneg [TakeDamage 30, Heal 50, Frame 2, TakeDamage 120, Heal 10]
   \<and> health_in_range
       (player_run [TakeDamage 30, Heal 50, Frame 2, TakeDamage 120, Heal 10] new_Player)
   \<and> \<not> (pl_isInvincible new_Player \<or> pl_isShielded new_Player \<or> pl_destroyed new_Player)
   \<and> 0 \<le> pl_health (fst (snd (Player_takeDamage 120 new_Player)))
   \<and> pl_health (Player_heal 50 new_Player) \<le> pl_maxHealth new_Player"
proof -
  have h: "health_in_range new_Player
      \<and> list_all amount_nonneg [TakeDamage 30, Heal 50, Frame 2, TakeDamage 120, Heal 10]"
    by (simp add: health_in_range_def new_Player_def)
  have l: "\<not> (pl_isInvincible new_Player \<or> pl_isShielded new_Player \<or> pl_destroyed new_Player)"
    by (simp add: new_Player_def)
  from player_health_in_range[of new_Player
         "[TakeDamage 30, Heal 50, Frame 2, TakeDamage 120, Heal 10]" 120]
       player_health_in_range[of new_Player "[]" 50] h l
  show ?thesis by simp
qed

section \<open>Verification: Enemy\<close>

lemma setState_keeps:
  "e_health (setState s r e) = e_health e"
  "e_isInvincible (setState s r e) = e_isInvincible e"
  "e_invincibilityTimer (setState s r e) = e_invincibilityTimer e"
  "e_invincibilityDuration (setState s r e) = e_invincibilityDuration e"
  "e_destroyed (setState s r e) = e_destroyed e"
  by (simp_all add: setState_def Let_def split: EnemyState.splits)

lemma setState_state: "e_currentState (setState s r e) = s"
  by (simp add: setState_def Let_def split: EnemyState.splits)

lemma Enemy_destroy_keeps:
  "e_health (Enemy_destroy e) = e_health e"
  "e_isInvincible (Enemy_destroy e) = e_isInvincible e"
  "e_invincibilityTimer (Enemy_destroy e) = e_invincibilityTimer e"
  "e_invincibilityDuration (Enemy_destroy e) = e_invincibilityDuration e"
  by (simp_all add: Enemy_destroy_def setState_keeps)

lemma stateLogic_keeps:
  "e_health (fst (stateLogic env dt pp e)) = e_health e"
  "e_isInvincible (fst (stateLogic env dt pp e)) = e_isInvincible e"
  "e_invincibilityTimer (fst (stateLogic env dt pp e)) = e_invincibilityTimer e"
  "e_invincibilityDuration (fst (stateLogic env dt pp e)) = e_invincibilityDuration e"
  by (simp_all add: stateLogic_def Let_def Enemy_destroy_keeps split: EnemyState.splits)

lemma transitionChecks_keeps:
  "e_health (transitionChecks env d e) = e_health e"
  "e_isInvincible (transitionChecks env d e) = e_isInvincible e"
  "e_invincibilityTimer (transitionChecks env d e) = e_invincibilityTimer e"
  "e_invincibilityDuration (transitionChecks env d e) = e_invincibilityDuration e"
  by (simp_all add: transitionChecks_def Let_def setState_keeps split: EnemyState.splits)

lemma updateFSM_keeps:
  "e_health (fst (updateFSM env dt e)) = e_health e"
  "e_isInvincible (fst (updateFSM env dt e)) = e_isInvincible e"
  "e_invincibilityTimer (fst (updateFSM env dt e)) = e_invincibilityTimer e"
  "e_invincibilityDuration (fst (updateFSM env dt e)) = e_invincibilityDuration e"
  by (simp_all add: updateFSM_def Let_def setState_keeps Enemy_destroy_keeps stateLogic_keeps
        transitionChecks_keeps case_prod_beta split: option.splits)

lemma Enemy_update_health: "e_health (fst (Enemy_update env dt e)) = e_health e"
  by (simp add: Enemy_update_def updateFSM_keeps Enemy_updateTimers_def Let_def)

lemma Enemy_update_invincible:
  "e_isInvincible e \<Longrightarrow> 0 \<le> dt \<Longrightarrow> dt * 1000 + rest < e_invincibilityTimer e \<Longrightarrow> 0 \<le> rest
   \<Longrightarrow> e_isInvincible (fst (Enemy_update env dt e))
     \<and> rest < e_invincibilityTimer (fst (Enemy_update env dt e))"
  by (simp add: Enemy_update_def updateFSM_keeps Enemy_updateTimers_def Let_def)

lemma frames_time_nonneg: "frames_nonneg fs \<Longrightarrow> 0 \<le> frames_time fs"
  by (induction fs rule: frames_time.induct) auto

lemma enemy_frames_health: "e_health (enemy_frames fs e) = e_health e"
  by (induction fs e rule: enemy_frames.induct) (simp_all add: Enemy_update_health)

lemma enemy_frames_invincible:
  "e_isInvincible e \<Longrightarrow> frames_nonneg fs \<Longrightarrow> frames_time fs * 1000 < e_invincibilityTimer e
   \<Longrightarrow> e_isInvincible (enemy_frames fs e)"
proof (induction fs e rule: enemy_frames.induct)
  case (1 e)
  then show ?case by simp
next
  case (2 env dt fs e)
  from 2(3) have nn: "0 \<le> dt" "frames_nonneg fs" by simp_all
  from 2(4) have "dt * 1000 + frames_time fs * 1000 < e_invincibilityTimer e"
    by (simp add: algebra_simps)
  with Enemy_update_invincible[OF 2(2) nn(1) _ , of "frames_time fs * 1000" env]
    frames_time_nonneg[OF nn(2)]
  have "e_isInvincible (fst (Enemy_update env dt e))
     \<and> frames_time fs * 1000 < e_invincibilityTimer (fst (Enemy_update env dt e))"
    by simp
  with 2(1) nn show ?case by simp
qed

text \<open>
  No method writes \<open>invincibilityDuration\<close>: it is the \<open>300\<close> of the constructor.
\<close>

lemma invincibilityDuration_constant:
  "e_invincibilityDuration new_Enemy = 300"
  "e_invincibilityDuration (Enemy_reset t c pos r1 r2 f e) = e_invincibilityDuration e"
  "e_invincibilityDuration (snd (Enemy_takeDamage a e)) = e_invincibilityDuration e"
  "e_invincibilityDuration (fst (Enemy_update env dt e)) = e_invincibilityDuration e"
  "e_invincibilityDuration (Enemy_destroy e) = e_invincibilityDuration e"
  by (simp_all add: new_Enemy_def Enemy_reset_def Enemy_takeDamage_def Enemy_update_def
        Enemy_updateTimers_def Enemy_applyInvincibility_def Let_def setState_keeps
        updateFSM_keeps Enemy_destroy_keeps)

lemma takeDamage_blocked: "damage_blocked e \<Longrightarrow> Enemy_takeDamage a e = (0, e)"
  by (simp add: damage_blocked_def Enemy_takeDamage_def)

lemma takeDamage_applied:
  assumes "\<not> damage_blocked e"
  shows "fst (Enemy_takeDamage a e) = a"
    and "e_health (snd (Enemy_takeDamage a e)) = max 0 (e_health e - a)"
    and "e_isInvincible (snd (Enemy_takeDamage a e))"
    and "e_invincibilityTimer (snd (Enemy_takeDamage a e)) = e_invincibilityDuration e"
    and "e_health e - a \<le> 0 \<Longrightarrow> e_currentState (snd (Enemy_takeDamage a e)) = DYING"
    and "0 < e_health e - a
           \<Longrightarrow> e_currentState (snd (Enemy_takeDamage a e)) = e_currentState e"
  using assms
  by (simp_all add: damage_blocked_def Enemy_takeDamage_def Enemy_applyInvincibility_def
        Let_def setState_keeps setState_state)

lemma setState_fighting:
  "s \<noteq> DYING \<Longrightarrow> s \<noteq> INACTIVE \<Longrightarrow> fighting e \<Longrightarrow> fighting (setState s r e)"
  by (simp add: fighting_def setState_state setState_keeps)

lemma stateLogic_fighting: "fighting e \<Longrightarrow> fighting (fst (stateLogic env dt pp e))"
  by (auto simp: stateLogic_def fighting_def Let_def split: EnemyState.splits)

lemma transitionChecks_fighting: "fighting e \<Longrightarrow> fighting (transitionChecks env d e)"
  by (auto simp: transitionChecks_def Let_def setState_fighting split: EnemyState.splits)

lemma updateFSM_fighting: "fighting e \<Longrightarrow> fighting (fst (updateFSM env dt e))"
proof -
  assume f: "fighting e"
  have a: "fighting (e\<lparr> e_stateTimer := t \<rparr>)" for t using f by (simp add: fighting_def)
  show ?thesis
  proof (cases "if noPlayer env then None else env_player env")
    case None
    with a f show ?thesis
      by (auto simp: updateFSM_def Let_def fighting_def setState_state setState_keeps)
  next
    case (Some pl)
    from stateLogic_fighting[OF a] transitionChecks_fighting Some show ?thesis
      by (simp add: updateFSM_def Let_def case_prod_beta)
  qed
qed

lemma Enemy_update_fighting: "fighting e \<Longrightarrow> fighting (fst (Enemy_update env dt e))"
proof -
  assume f: "fighting e"
  then have "fighting (Enemy_updateTimers dt e)"
    by (simp add: fighting_def Enemy_updateTimers_def Let_def)
  from updateFSM_fighting[OF this] f show ?thesis
    by (simp add: Enemy_update_def fighting_def)
qed

lemma enemy_frames_fighting: "fighting e \<Longrightarrow> fighting (enemy_frames fs e)"
  by (induction fs e rule: enemy_frames.induct) (simp_all add: Enemy_update_fighting)

text \<open>
  A frame of a fighting enemy that leaves it invincible has taken its time from the
  timer and has not used it up; and no frame makes an enemy invincible.
\<close>

lemma Enemy_update_timer:
  "fighting e \<Longrightarrow> e_isInvincible (fst (Enemy_update env dt e))
     \<Longrightarrow> e_isInvincible e
       \<and> e_invincibilityTimer (fst (Enemy_update env dt e)) = e_invincibilityTimer e - dt * 1000
       \<and> dt * 1000 < e_invincibilityTimer e"
  by (auto simp: Enemy_update_def fighting_def updateFSM_keeps Enemy_updateTimers_def Let_def
        split: if_splits)

lemma enemy_frames_vulnerable:
  "\<not> e_isInvincible e \<Longrightarrow> \<not> e_isInvincible (enemy_frames fs e)"
  by (induction fs e rule: enemy_frames.induct)
     (auto simp: Enemy_update_def updateFSM_keeps Enemy_updateTimers_def Let_def)

text \<open>
  The same for an enemy that is dying.  Entering \<open>DYING\<close> sets the state timer to
  \<open>1.5\<close> s while the hit sets the invincibility timer to \<open>300\<close> ms, and a frame takes
  its time from both, so the enemy is destroyed only in a frame that has ended the
  invincibility.
\<close>

lemma Enemy_update_ticking:
  assumes "\<not> e_destroyed e" "e_currentState e \<noteq> INACTIVE"
    and "e_currentState e = DYING \<longrightarrow> e_invincibilityTimer e = 1000 * e_stateTimer e - 1200"
    and "e_isInvincible (fst (Enemy_update env dt e))"
  shows "e_isInvincible e
       \<and> e_invincibilityTimer (fst (Enemy_update env dt e)) = e_invincibilityTimer e - dt * 1000
       \<and> dt * 1000 < e_invincibilityTimer e
       \<and> \<not> e_destroyed (fst (Enemy_update env dt e))
       \<and> e_currentState (fst (Enemy_update env dt e)) \<noteq> INACTIVE
       \<and> (e_currentState (fst (Enemy_update env dt e)) = DYING \<longrightarrow>
            e_invincibilityTimer (fst (Enemy_update env dt e))
              = 1000 * e_stateTimer (fst (Enemy_update env dt e)) - 1200)"
proof (cases "e_currentState e = DYING")
  case False
  with assms(1,2) have f: "fighting e" by (simp add: fighting_def)
  from Enemy_update_fighting[OF f, of env dt] Enemy_update_timer[OF f assms(4)]
  show ?thesis by (simp add: fighting_def)
next
  case True
  with assms show ?thesis
    by (auto simp: Enemy_update_def updateFSM_def stateLogic_def transitionChecks_def
          Enemy_updateTimers_def Enemy_destroy_def setState_def Let_def noPlayer_def
          split: if_splits option.splits)
qed

lemma enemy_frames_still_invincible:
  "\<not> e_destroyed e \<Longrightarrow> e_currentState e \<noteq> INACTIVE
     \<Longrightarrow> e_currentState e = DYING \<longrightarrow> e_invincibilityTimer e = 1000 * e_stateTimer e - 1200
     \<Longrightarrow> e_isInvincible (enemy_frames fs e) \<Longrightarrow> fs \<noteq> []
     \<Longrightarrow> frames_time fs * 1000 < e_invincibilityTimer e"
proof (induction fs e rule: enemy_frames.induct)
  case (1 e)
  then show ?case by simp
next
  case (2 env dt fs e)
  define e1 where "e1 = fst (Enemy_update env dt e)"
  have i: "e_isInvincible (enemy_frames fs e1)" using 2(5) by (simp add: e1_def)
  show ?case
  proof (cases "fs = []")
    case True
    with i Enemy_update_ticking[OF 2(2,3,4), of env dt] show ?thesis by (simp add: e1_def)
  next
    case False
    from i enemy_frames_vulnerable[of e1 fs] have i1: "e_isInvincible e1" by blast
    note u = Enemy_update_ticking[OF 2(2,3,4) i1[unfolded e1_def], folded e1_def]
    from u have "\<not> e_destroyed e1" "e_currentState e1 \<noteq> INACTIVE"
      "e_currentState e1 = DYING \<longrightarrow> e_invincibilityTimer e1 = 1000 * e_stateTimer e1 - 1200"
      by blast+
    from 2(1)[OF this[unfolded e1_def] i[unfolded e1_def] False]
    have r: "frames_time fs * 1000 < e_invincibilityTimer e1" by (simp add: e1_def)
    with u show ?thesis by (simp add: algebra_simps)
  qed
qed

lemma invincibility_ends:
  assumes nb: "\<not> damage_blocked e" and d: "e_invincibilityDuration e = 300"
    and t: "300 \<le> frames_time fs * 1000"
  shows "\<not> e_isInvincible (enemy_frames fs (snd (Enemy_takeDamage a e)))"
    and "0 < e_health e - a
           \<Longrightarrow> \<not> damage_blocked (enemy_frames fs (snd (Enemy_takeDamage a e)))"
proof -
  define e1 where "e1 = snd (Enemy_takeDamage a e)"
  have a1: "\<not> e_destroyed e1" "e_currentState e1 \<noteq> INACTIVE"
    "e_currentState e1 = DYING \<longrightarrow> e_invincibilityTimer e1 = 1000 * e_stateTimer e1 - 1200"
    using nb d
    by (auto simp: e1_def damage_blocked_def Enemy_takeDamage_def
          Enemy_applyInvincibility_def setState_def Let_def)
  from t have ne: "fs \<noteq> []" by auto
  have t1: "e_invincibilityTimer e1 = 300"
    using takeDamage_applied(4)[OF nb, of a] d by (simp add: e1_def)
  from enemy_frames_still_invincible[OF a1 _ ne] t1 t
  show i: "\<not> e_isInvincible (enemy_frames fs (snd (Enemy_takeDamage a e)))"
    by (auto simp: e1_def)
  assume alive: "0 < e_health e - a"
  have f1: "fighting e1" using nb alive
    by (simp add: e1_def fighting_def damage_blocked_def Enemy_takeDamage_def
          Enemy_applyInvincibility_def Let_def)
  from enemy_frames_fighting[OF f1, of fs] i
  show "\<not> damage_blocked (enemy_frames fs (snd (Enemy_takeDamage a e)))"
    by (simp add: e1_def fighting_def damage_blocked_def)
qed

text \<open>
  Claim C4.  \<open>takeDamage(amount)\<close> returns \<open>0\<close> and leaves the enemy as it is when the
  enemy is invincible, destroyed, \<open>DYING\<close> or \<open>INACTIVE\<close>.  Otherwise it returns the
  amount, lowers the health by it (not below \<open>0\<close>), makes the enemy invincible with
  the timer at the invincibility duration (\<open>300\<close> ms, set by the constructor and never
  written again), and puts the enemy in \<open>DYING\<close> exactly when the health has reached
  \<open>0\<close>.  The invincibility lasts \<open>300\<close> ms of frame time, no less and no more: after
  any frames that take less than \<open>300\<close> ms together, a second \<open>takeDamage\<close> returns \<open>0\<close>
  and changes nothing, the health being what the first call left; and after any frames
  that take \<open>300\<close> ms or more together the enemy is no longer invincible, and on an
  enemy that survived the first hit a second \<open>takeDamage\<close> returns its amount and lowers
  the health by it.
\<close>

theorem Enemy_takeDamage_contract:
  "(damage_blocked e \<longrightarrow> Enemy_takeDamage a e = (0, e))
   \<and> (\<not> damage_blocked e \<and> e_invincibilityDuration e = 300 \<longrightarrow>
        fst (Enemy_takeDamage a e) = a
      \<and> e_health (snd (Enemy_takeDamage a e)) = max 0 (e_health e - a)
      \<and> e_isInvincible (snd (Enemy_takeDamage a e))
      \<and> e_invincibilityTimer (snd (Enemy_takeDamage a e)) = 300
      \<and> (e_health e - a \<le> 0 \<longrightarrow> e_currentState (snd (Enemy_takeDamage a e)) = DYING)
      \<and> (0 < e_health e - a \<longrightarrow>
           e_currentState (snd (Enemy_takeDamage a e)) = e_currentState e)
      \<and> (frames_nonneg fs \<and> frames_time fs * 1000 < 300 \<longrightarrow>
           Enemy_takeDamage a2 (enemy_frames fs (snd (Enemy_takeDamage a e)))
             = (0, enemy_frames fs (snd (Enemy_takeDamage a e)))
         \<and> e_health (enemy_frames fs (snd (Enemy_takeDamage a e)))
             = max 0 (e_health e - a))
      \<and> (300 \<le> frames_time fs * 1000 \<longrightarrow>
           \<not> e_isInvincible (enemy_frames fs (snd (Enemy_takeDamage a e)))
         \<and> (0 < e_health e - a \<longrightarrow>
              \<not> damage_blocked (enemy_frames fs (snd (Enemy_takeDamage a e)))
            \<and> fst (Enemy_takeDamage a2 (enemy_frames fs (snd (Enemy_takeDamage a e)))) = a2
            \<and> e_health (snd (Enemy_takeDamage a2
                                (enemy_frames fs (snd (Enemy_takeDamage a e)))))
                = max 0 (e_health e - a - a2))))"
proof (intro conjI impI)
  assume "damage_blocked e"
  then show "Enemy_takeDamage a e = (0, e)" by (rule takeDamage_blocked)
next
  assume a: "\<not> damage_blocked e \<and> e_invincibilityDuration e = 300"
  then have nb: "\<not> damage_blocked e" and d: "e_invincibilityDuration e = 300" by simp_all
  show "fst (Enemy_takeDamage a e) = a"
    and h: "e_health (snd (Enemy_takeDamage a e)) = max 0 (e_health e - a)"
    and i: "e_isInvincible (snd (Enemy_takeDamage a e))"
    using nb by (simp_all add: takeDamage_applied)
  show t: "e_invincibilityTimer (snd (Enemy_takeDamage a e)) = 300"
    using nb d by (simp add: takeDamage_applied)
  {
    assume "e_health e - a \<le> 0"
    then show "e_currentState (snd (Enemy_takeDamage a e)) = DYING"
      using nb by (simp add: takeDamage_applied)
  }
  {
    assume "0 < e_health e - a"
    then show "e_currentState (snd (Enemy_takeDamage a e)) = e_currentState e"
      using nb by (simp add: takeDamage_applied)
  }
  {
    assume f: "frames_nonneg fs \<and> frames_time fs * 1000 < 300"
    with i t have "e_isInvincible (enemy_frames fs (snd (Enemy_takeDamage a e)))"
      by (intro enemy_frames_invincible) simp_all
    then show "Enemy_takeDamage a2 (enemy_frames fs (snd (Enemy_takeDamage a e)))
             = (0, enemy_frames fs (snd (Enemy_takeDamage a e)))"
      by (intro takeDamage_blocked) (simp add: damage_blocked_def)
    show "e_health (enemy_frames fs (snd (Enemy_takeDamage a e))) = max 0 (e_health e - a)"
      using h by (simp add: enemy_frames_health)
  }
  {
    assume u: "300 \<le> frames_time fs * 1000"
    then show "\<not> e_isInvincible (enemy_frames fs (snd (Enemy_takeDamage a e)))"
      using nb d by (simp add: invincibility_ends)
    assume s: "0 < e_health e - a"
    with u show v: "\<not> damage_blocked (enemy_frames fs (snd (Enemy_takeDamage a e)))"
      using nb d by (simp add: invincibility_ends)
    from v show "fst (Enemy_takeDamage a2 (enemy_frames fs (snd (Enemy_takeDamage a e)))) = a2"
      by (simp add: takeDamage_applied)
    from v s h show "e_health (snd (Enemy_takeDamage a2
                             (enemy_frames fs (snd (Enemy_takeDamage a e)))))
             = max 0 (e_health e - a - a2)"
      by (simp add: takeDamage_applied enemy_frames_health)
  }
qed

lemmas enemy_eval_defs =
  basic_enemy_def Enemy_reset_def new_Enemy_def basicConfig_def setState_def js_or_def
  js_or_inf_def damage_blocked_def env0_def vzero_def Let_def

theorem Enemy_takeDamage_contract_witness:
  "\<not> damage_blocked basic_enemy \<and> e_invincibilityDuration basic_enemy = 300
   \<and> e_health basic_enemy = 15
   \<and> damage_blocked new_Enemy \<and> Enemy_takeDamage 8 new_Enemy = (0, new_Enemy)
   \<and> frames_nonneg [(env0, 1 / 10), (env0, 1 / 10)]
   \<and> frames_time [(env0, 1 / 10), (env0, 1 / 10)] * 1000 < 300
   \<and> fst (Enemy_takeDamage 8 basic_enemy) = 8
   \<and> e_health (snd (Enemy_takeDamage 8 basic_enemy)) = 7
   \<and> e_currentState (snd (Enemy_takeDamage 8 basic_enemy)) = IDLE
   \<and> e_currentState (snd (Enemy_takeDamage 15 basic_enemy)) = DYING
   \<and> fst (Enemy_takeDamage 8
        (enemy_frames [(env0, 1 / 10), (env0, 1 / 10)] (snd (Enemy_takeDamage 8 basic_enemy))))
       = 0
   \<and> e_health (enemy_frames [(env0, 1 / 10), (env0, 1 / 10)]
        (snd (Enemy_takeDamage 8 basic_enemy))) = 7
   \<and> 300 \<le> frames_time [(env0, 1 / 10), (env0, 1 / 10), (env0, 1 / 10)] * 1000
   \<and> \<not> e_isInvincible (enemy_frames [(env0, 1 / 10), (env0, 1 / 10), (env0, 1 / 10)]
        (snd (Enemy_takeDamage 8 basic_enemy)))
   \<and> fst (Enemy_takeDamage 5
        (enemy_frames [(env0, 1 / 10), (env0, 1 / 10), (env0, 1 / 10)]
           (snd (Enemy_takeDamage 8 basic_enemy)))) = 5
   \<and> e_health (snd (Enemy_takeDamage 5
        (enemy_frames [(env0, 1 / 10), (env0, 1 / 10), (env0, 1 / 10)]
           (snd (Enemy_takeDamage 8 basic_enemy))))) = 2
   \<and> \<not> e_isInvincible (enemy_frames [(env0, 1 / 10), (env0, 1 / 10), (env0, 1 / 10)]
        (snd (Enemy_takeDamage 15 basic_enemy)))"
proof -
  have h: "\<not> damage_blocked basic_enemy \<and> e_invincibilityDuration basic_enemy = 300"
    "e_health basic_enemy = 15" "e_currentState basic_enemy = IDLE"
    by (simp_all add: enemy_eval_defs)
  have b: "damage_blocked new_Enemy"
    by (simp add: damage_blocked_def new_Enemy_def)
  have f: "frames_nonneg [(env0, 1 / 10), (env0, 1 / 10)]
      \<and> frames_time [(env0, 1 / 10), (env0, 1 / 10)] * 1000 < 300"
    by simp
  have g: "0 < e_health basic_enemy - 8
      \<and> 300 \<le> frames_time [(env0, 1 / 10), (env0, 1 / 10), (env0, 1 / 10)] * 1000"
    by (simp add: enemy_eval_defs)
  from Enemy_takeDamage_contract[of basic_enemy 8 "[(env0, 1 / 10), (env0, 1 / 10)]" 8]
       Enemy_takeDamage_contract[of basic_enemy 8
         "[(env0, 1 / 10), (env0, 1 / 10), (env0, 1 / 10)]" 5]
       Enemy_takeDamage_contract[of basic_enemy 15 "[]" 0]
       Enemy_takeDamage_contract[of basic_enemy 15
         "[(env0, 1 / 10), (env0, 1 / 10), (env0, 1 / 10)]" 0]
       Enemy_takeDamage_contract[of new_Enemy 8 "[]" 0] h b f g
  show ?thesis by simp
qed

text \<open>
  Claim C8.  For an enemy in \<open>IDLE\<close> and a live player whose squared distance to the
  enemy is at most the square of \<open>chaseDistance\<close>, \<open>updateFSM\<close> leaves the enemy in
  \<open>CHASING\<close>, whatever the idle timer, the frame time and the random number are; so
  does a whole \<open>update(dt)\<close> of an enemy that is not destroyed.
\<close>

theorem idle_to_chasing:
  "e_currentState e = IDLE \<and> env_player env = Some pl \<and> \<not> pv_destroyed pl
   \<and> js_le (Num (distanceToSquared (e_position e) (pv_position pl)))
        (js_times (e_chaseDistance e) (e_chaseDistance e))
   \<longrightarrow> e_currentState (fst (updateFSM env dt e)) = CHASING
     \<and> (\<not> e_destroyed e \<longrightarrow> e_currentState (fst (Enemy_update env dt e)) = CHASING)"
  by (simp add: Enemy_update_def Enemy_updateTimers_def updateFSM_def noPlayer_def
        stateLogic_def transitionChecks_def Let_def setState_state)

theorem idle_to_chasing_witness:
  "e_currentState basic_enemy = IDLE
   \<and> e_stateTimer basic_enemy = 2
   \<and> env_player env0 = Some \<lparr> pv_destroyed = False, pv_position = vzero \<rparr>
   \<and> distanceToSquared (e_position basic_enemy) vzero = 25
   \<and> e_chaseDistance basic_enemy = Num 25
   \<and> \<not> e_destroyed basic_enemy
   \<and> e_currentState (fst (updateFSM env0 (1 / 10) basic_enemy)) = CHASING
   \<and> e_currentState (fst (Enemy_update env0 (1 / 10) basic_enemy)) = CHASING"
proof -
  have h: "e_currentState basic_enemy = IDLE" "e_stateTimer basic_enemy = 2"
    "env_player env0 = Some \<lparr> pv_destroyed = False, pv_position = vzero \<rparr>"
    "distanceToSquared (e_position basic_enemy) vzero = 25"
    "e_chaseDistance basic_enemy = Num 25" "\<not> e_destroyed basic_enemy"
    by (simp_all add: enemy_eval_defs)
  from idle_to_chasing[of basic_enemy env0 "\<lparr> pv_destroyed = False, pv_position = vzero \<rparr>"
         "1 / 10"] h
  show ?thesis by simp
qed

section \<open>Verification: destroy()\<close>

text \<open>
  Claim C10.  \<open>destroy()\<close> on a bullet, an enemy or a power-up that is already
  destroyed returns at its first line and leaves every field as it was; hence a
  second \<open>destroy()\<close> after a first changes nothing.
\<close>

theorem destroy_idempotent:
  "(b_destroyed b \<longrightarrow> Bullet_destroy b = b)
   \<and> (e_destroyed e \<longrightarrow> Enemy_destroy e = e)
   \<and> (pu_destroyed p \<longrightarrow> PowerUp_destroy p = p)
   \<and> Bullet_destroy (Bullet_destroy b) = Bullet_destroy b
   \<and> Enemy_destroy (Enemy_destroy e) = Enemy_destroy e
   \<and> PowerUp_destroy (PowerUp_destroy p) = PowerUp_destroy p"
  by (simp add: Bullet_destroy_def Enemy_destroy_def PowerUp_destroy_def setState_keeps)

theorem destroy_idempotent_witness:
  "b_destroyed new_Bullet \<and> Bullet_destroy new_Bullet = new_Bullet
   \<and> e_destroyed new_Enemy \<and> Enemy_destroy new_Enemy = new_Enemy
   \<and> pu_destroyed (new_PowerUp False 0) \<and> PowerUp_destroy (new_PowerUp False 0) = new_PowerUp False 0
   \<and> \<not> e_destroyed basic_enemy
   \<and> Enemy_destroy (Enemy_destroy basic_enemy) = Enemy_destroy basic_enemy"
proof -
  have h: "b_destroyed new_Bullet" "e_destroyed new_Enemy" "pu_destroyed (new_PowerUp False 0)"
    "\<not> e_destroyed basic_enemy"
    by (simp_all add: new_Bullet_def new_PowerUp_def enemy_eval_defs)
  from destroy_idempotent[of new_Bullet new_Enemy "new_PowerUp False 0"]
       destroy_idempotent[of new_Bullet basic_enemy "new_PowerUp False 0"] h
  show ?thesis by simp
qed

section \<open>Verification: waves\<close>

lemmas engine_eval_defs =
  engine0_def new_GameEngine3D_def transitionToGame_def resetGame_def Let_def
  updateGameState_def startNextWave_def calculateEnemiesForWave_def wave1_started_def

lemma updateGameState_playing:
  "gameState s = PLAYING \<Longrightarrow>
     (gameState (updateGameState dt s) = WAVE_TRANSITION)
       = (enemiesRemainingInWave s > 0 \<and> enemiesActive s \<le> 0)"
  by (simp add: updateGameState_def)

lemma updateGameState_cooldown:
  "gameState s = PLAYING \<Longrightarrow> gameState (updateGameState dt s) = WAVE_TRANSITION
     \<Longrightarrow> waveCooldownTimer (updateGameState dt s) = waveCooldownDuration s"
  by (simp add: updateGameState_def split: if_splits)

lemma no_detection_at_zero_remaining:
  "gameState s = PLAYING \<Longrightarrow> enemiesRemainingInWave s = 0 \<Longrightarrow> enemiesActive s = 0
     \<Longrightarrow> updateGameState dt s = s"
  by (simp add: updateGameState_def)

text \<open>
  Claim C1 on the code.  \<open>startNextWave\<close> for wave \<open>1\<close> leaves six enemies to spawn,
  all of them still to come (the spawn timer has not fired), and no active enemy.
  The next frame's \<open>updateGameState\<close> takes this for the end of the wave: it enters
  \<open>WAVE_TRANSITION\<close> with the cooldown at \<open>3000\<close> ms while the remaining counter is
  \<open>6\<close>, and the spawn timer, firing afterwards, clears itself without spawning.
\<close>

theorem wave_ends_before_spawning:
  "gameState wave1_started = PLAYING
   \<and> currentWave wave1_started = 1
   \<and> enemiesToSpawn wave1_started = 6
   \<and> enemiesRemainingInWave wave1_started = 6
   \<and> enemiesActive wave1_started = 0
   \<and> activeEnemies wave1_started = []
   \<and> gameState (updateGameState (1 / 60) wave1_started) = WAVE_TRANSITION
   \<and> waveCooldownTimer (updateGameState (1 / 60) wave1_started) = 3000
   \<and> enemiesRemainingInWave (updateGameState (1 / 60) wave1_started) = 6
   \<and> spawnTimerTick 0 (updateGameState (1 / 60) wave1_started)
       = Inr (None, updateGameState (1 / 60) wave1_started)"
  by (simp add: engine_eval_defs spawnTimerTick_def)

section \<open>Verification: the pools\<close>

lemma getObjectFromPool_unregistered:
  "pools s n = None \<Longrightarrow> getObjectFromPool n s = Inl TypeError"
  by (simp add: getObjectFromPool_def)

lemma getObjectFromPool_empty:
  "pools s n = Some [] \<Longrightarrow> getObjectFromPool n s = Inr (None, s)"
  by (simp add: getObjectFromPool_def)

lemma empty_pool_skips_spawn:
  "pools s ''enemies'' = Some [] \<Longrightarrow> spawnEnemy s = Inr s"
  "pools s ''bullets'' = Some [] \<Longrightarrow> spawnBullet p d dm pl s = Inr s"
  "pools s ''powerUps'' = Some [] \<Longrightarrow> spawnPowerUp q s = Inr s"
  by (simp_all add: spawnEnemy_def spawnBullet_def spawnPowerUp_def getObjectFromPool_empty)

lemma returnObjectToPool_unregistered:
  "pools s n = None \<Longrightarrow> pools (returnObjectToPool (Some r) n s) = pools s"
  by (simp add: returnObjectToPool_def Let_def)

text \<open>
  Claim C2 on the code.  \<open>this.pools\<close> of a new engine has the pools \<open>enemies\<close>,
  \<open>bullets\<close> and \<open>powerUps\<close>.  \<open>getObjectFromPool\<close> for another name reads \<open>length\<close> of
  \<open>undefined\<close> and raises a TypeError; it does not return \<open>null\<close>.
\<close>

theorem getObjectFromPool_unregistered_raises:
  "pools engine0 ''effects'' = None
   \<and> getObjectFromPool ''effects'' engine0 = Inl TypeError"
  by (simp add: getObjectFromPool_def engine0_def new_GameEngine3D_def)

lemma release_pool:
  "pools s n = Some xs \<Longrightarrow> pools (returnObjectToPool (Some r) n s) n = Some (xs @ [r])"
  by (simp add: returnObjectToPool_def Let_def)

lemma releaseAll_pool:
  "pools s n = Some xs \<Longrightarrow> pools (releaseAll rs n s) n = Some (xs @ rs)"
  unfolding releaseAll_def
  by (induction rs arbitrary: s xs) (simp_all add: release_pool)

lemma acquire_nonempty:
  "pools s n = Some (xs @ [r]) \<Longrightarrow>
    \<exists>s'. getObjectFromPool n s = Inr (Some r, s') \<and> pools s' n = Some xs"
  by (simp add: getObjectFromPool_def Let_def)

lemma acquireN_rev:
  "pools s n = Some (xs @ rs) \<Longrightarrow>
    \<exists>s'. acquireN (length rs) n s = Inr (map Some (rev rs), s') \<and> pools s' n = Some xs"
proof (induction rs arbitrary: s rule: rev_induct)
  case Nil
  then show ?case by simp
next
  case (snoc r rs)
  from snoc(2) have "pools s n = Some ((xs @ rs) @ [r])" by simp
  from acquire_nonempty[OF this] obtain s1 where
    g: "getObjectFromPool n s = Inr (Some r, s1)" and p: "pools s1 n = Some (xs @ rs)"
    by blast
  from snoc(1)[OF p] obtain s2 where
    "acquireN (length rs) n s1 = Inr (map Some (rev rs), s2)" "pools s2 n = Some xs"
    by blast
  with g show ?case by simp
qed

text \<open>
  Claim C5.  For a registered pool: \<open>getObjectFromPool\<close> on a non-empty pool returns
  the last object of the array, which is the one released most recently, and takes it
  off the array; an object released is the next one acquired; and after releasing a
  list of objects, acquiring as many times returns exactly these objects in reverse
  order of release and leaves the pool with the objects it had before.  Nothing is
  constructed: every object returned comes from the array.
\<close>

theorem pool_is_lifo:
  "pools s n = Some xs \<longrightarrow>
     (xs \<noteq> [] \<longrightarrow>
        (\<exists>s'. getObjectFromPool n s = Inr (Some (last xs), s')
              \<and> pools s' n = Some (butlast xs)))
   \<and> (\<exists>s'. getObjectFromPool n (returnObjectToPool (Some r) n s) = Inr (Some r, s')
           \<and> pools s' n = Some xs)
   \<and> (\<exists>s'. acquireN (length rs) n (releaseAll rs n s) = Inr (map Some (rev rs), s')
           \<and> pools s' n = Some xs)"
proof (intro impI conjI)
  assume p: "pools s n = Some xs"
  {
    assume "xs \<noteq> []"
    with p have "pools s n = Some (butlast xs @ [last xs])" by simp
    then show "\<exists>s'. getObjectFromPool n s = Inr (Some (last xs), s')
              \<and> pools s' n = Some (butlast xs)"
      by (rule acquire_nonempty)
  }
  from release_pool[OF p]
  show "\<exists>s'. getObjectFromPool n (returnObjectToPool (Some r) n s) = Inr (Some r, s')
           \<and> pools s' n = Some xs"
    by (rule acquire_nonempty)
  from releaseAll_pool[OF p]
  show "\<exists>s'. acquireN (length rs) n (releaseAll rs n s) = Inr (map Some (rev rs), s')
           \<and> pools s' n = Some xs"
    by (rule acquireN_rev)
qed

theorem pool_is_lifo_witness:
  "pools cleanup_state0 ''bullets'' = Some [2]
   \<and> (\<exists>s'. getObjectFromPool ''bullets'' cleanup_state0 = Inr (Some 2, s')
           \<and> pools s' ''bullets'' = Some [])
   \<and> (\<exists>s'. getObjectFromPool ''bullets''
              (returnObjectToPool (Some 0) ''bullets'' cleanup_state0) = Inr (Some 0, s')
           \<and> pools s' ''bullets'' = Some [2])
   \<and> (\<exists>s'. acquireN 2 ''bullets'' (releaseAll [0, 1] ''bullets'' cleanup_state0)
              = Inr ([Some 1, Some 0], s')
           \<and> pools s' ''bullets'' = Some [2])"
proof -
  have h: "pools cleanup_state0 ''bullets'' = Some [2]"
    by (simp add: cleanup_state0_def)
  from pool_is_lifo[of cleanup_state0 "''bullets''" "[2]" 0 "[0, 1]"] h
  show ?thesis by (simp del: acquireN.simps add: numeral_2_eq_2)
qed

section \<open>Verification: the cleanup pass\<close>







lemma pass_registered: "pass s s' \<Longrightarrow> registered s \<Longrightarrow> registered s'"
  unfolding pass_def registered_def by blast



lemma has_mesh_set_destroyed [simp]: "has_mesh (set_destroyed v x) = has_mesh x"
  by (cases x) simp_all

lemma is_destroyed_set_destroyed [simp]: "is_destroyed (set_destroyed v x) = v"
  by (cases x) simp_all



subsection \<open>returnObjectToPool and getObjectFromPool\<close>









subsection \<open>spawnPowerUp\<close>




lemma PowerUp_reset_raises:
  "(PowerUp_reset pos t a b p = Inl TypeError) = (pu_physicsBody p = None \<and> \<not> pu_physics p)"
  by (auto simp: PowerUp_reset_def Let_def split: option.splits if_splits)




subsection \<open>The filter over a list\<close>


subsection \<open>The loop over the enemies\<close>



subsection \<open>The pass completes\<close>

lemma kind_set_destroyed [simp]:
  "is_enemy (set_destroyed v x) = is_enemy x" "resettable (set_destroyed v x) = resettable x"
  by (cases x; simp)+







subsection \<open>The whole pass\<close>





lemmas cleanup_eval_defs =
  cleanup_state0_def engine0_def new_GameEngine3D_def heap0_def cleanupEntities_def Let_def
  returnObjectToPool_def getObjectFromPool_def spawnPowerUp_def nextRandom_def
  updateScore_def live_bullet_def Bullet_reset_def Bullet_destroy_def new_Bullet_def
  updateBoundingVolume_def basic_enemy_def Enemy_reset_def Enemy_destroy_def new_Enemy_def
  setState_def basicConfig_def js_or_def js_or_inf_def PowerUp_reset_def new_PowerUp_def
  live_powerUp_def powerUpTypes_def pickPowerUpType_def vzero_def



text \<open>
  The same pass with a pooled power-up that was constructed without \<open>engine.physics\<close>:
  the drop of enemy \<open>3\<close> calls \<open>reset\<close> on it, which raises, and the pass ends there.
\<close>

lemma cleanup_raises_without_physics:
  "\<not> well_kinded cleanup_state1 \<and> cleanupEntities cleanup_state1 = Inl TypeError"
  by (simp add: cleanup_state1_def cleanup_eval_defs well_kinded_def powerUpPool_ok_def)


end
